theory Spec2Isabelle
  imports Complex_Main "HOL-Library.Word" "HOL-Library.Sublist"
begin

section \<open>JavaScript strings and values\<close>

text \<open>
  A JavaScript string is a sequence of UTF-16 code units; \<open>length\<close>, \<open>slice\<close>,
  \<open>indexOf\<close> and \<open>trim\<close> all count code units. A string is therefore a list of
  16-bit words, and \<open>ascii\<close> embeds an ASCII literal of the source.
\<close>

type_synonym jschar = "16 word"
type_synonym jsstring = "jschar list"

definition ascii :: "string \<Rightarrow> jsstring" where
  "ascii s = map of_char s"

text \<open>
  \<open>String.prototype.trim\<close> strips WhiteSpace and LineTerminator code units from both
  ends; the regular-expression class \<open>\s\<close> is the same set.
\<close>

definition isWhiteSpace :: "jschar \<Rightarrow> bool" where
  "isWhiteSpace c \<longleftrightarrow>
     c \<in> set [9, 10, 11, 12, 13, 32, 160, 5760, 8232, 8233, 8239, 8287, 12288, 65279]
     \<or> (8192 \<le> c \<and> c \<le> 8202)"

definition trim :: "jsstring \<Rightarrow> jsstring" where
  "trim s = rev (dropWhile isWhiteSpace (rev (dropWhile isWhiteSpace s)))"

text \<open>\<open>Array.prototype.join\<close> on an array of strings.\<close>

fun join :: "jsstring \<Rightarrow> jsstring list \<Rightarrow> jsstring" where
  "join sep [] = []"
| "join sep [x] = x"
| "join sep (x # y # ys) = x @ sep @ join sep (y # ys)"

text \<open>
  \<open>slice(start, end)\<close> of strings and arrays: a negative index counts from the end,
  and both indices are clamped to the length.
\<close>

definition slice :: "'a list \<Rightarrow> int \<Rightarrow> int \<Rightarrow> 'a list" where
  "slice xs start end =
     (let len = int (length xs);
          from = (if start < 0 then max (len + start) 0 else min start len);
          to = (if end < 0 then max (len + end) 0 else min end len)
      in take (nat (to - from)) (drop (nat from) xs))"

text \<open>
  \<open>indexOf\<close> and \<open>lastIndexOf\<close> with a one-character search string: the index of
  the first and of the last occurrence, \<open>-1\<close> when there is none.
\<close>

fun indexOf :: "'a list \<Rightarrow> 'a \<Rightarrow> int" where
  "indexOf [] c = - 1"
| "indexOf (x # xs) c =
     (if x = c then 0
      else (let r = indexOf xs c in if r = - 1 then - 1 else r + 1))"

fun lastIndexOf :: "'a list \<Rightarrow> 'a \<Rightarrow> int" where
  "lastIndexOf [] c = - 1"
| "lastIndexOf (x # xs) c =
     (let r = lastIndexOf xs c
      in if r \<noteq> - 1 then r + 1 else if x = c then 0 else - 1)"

text \<open>Decimal rendering of a non-negative integer inside a template literal.\<close>

fun natToString :: "nat \<Rightarrow> jsstring" where
  "natToString n =
     (if n < 10 then [of_nat (48 + n)]
      else natToString (n div 10) @ [of_nat (48 + n mod 10)])"

declare natToString.simps [simp del]

text \<open>
  The values \<open>JSON.parse\<close> can return. A number is a double: a finite one is the
  real it denotes, and \<open>JNonFinite\<close> is the infinity that an overflowing numeral
  such as \<open>1e999\<close> parses to. An object is the list of its members in source order.
\<close>

datatype json =
    JNull
  | JBool bool
  | JNum real
  | JNonFinite
  | JStr jsstring
  | JArr "json list"
  | JObj "(jsstring \<times> json) list"

text \<open>
  Reading a property \<open>value.key\<close>: \<open>None\<close> is \<open>undefined\<close>. \<open>JSON.parse\<close> keeps the
  last of several members with one key. None of the keys this program reads is a
  property of arrays or of \<open>Object.prototype\<close>, so any other value gives \<open>undefined\<close>.
\<close>

fun getProp :: "json \<Rightarrow> jsstring \<Rightarrow> json option" where
  "getProp (JObj kvs) k = map_of (rev kvs) k"
| "getProp _ k = None"

text \<open>The discriminated union \<open>ValidationResult<T>\<close>.\<close>

datatype 'a ValidationResult =
    Ok (resultValue: 'a)
  | Fail (resultErrors: "jsstring list")

fun isOk :: "'a ValidationResult \<Rightarrow> bool" where
  "isOk (Ok _) = True"
| "isOk (Fail _) = False"

section \<open>types.ts\<close>

text \<open>
  Every interface is a record with the fields of the source. Where two interfaces
  share a field name the field is written with its record, as in
  \<open>StudentInsights.strengths\<close>. The field \<open>id\<close> of a student is \<open>id_field\<close>
  and \<open>notes\<close> of a summary is \<open>notes_field\<close>.
  A \<open>number\<close> field holds a finite double and is the real it denotes.
\<close>

datatype PerformanceTrend = Improving | Stable | Declining

record Grade =
  subject :: jsstring
  score :: real

record Student =
  id_field :: jsstring
  name :: jsstring
  email :: jsstring
  grades :: "Grade list"
  participationScore :: real
  assignmentCompletionRate :: real
  teacherNotes :: jsstring
  performanceTrend :: PerformanceTrend
  lastAssessmentDate :: jsstring

record StudentMetrics =
  averageScore :: real
  highestSubjects :: "Grade list"
  lowestSubjects :: "Grade list"
  participationScore :: real
  assignmentCompletionRate :: real
  needsAttention :: bool

datatype RiskLevel = Low | Medium | High

record StudentAnalysis =
  student :: Student
  metrics :: StudentMetrics
  strengths :: "jsstring list"
  improvementAreas :: "jsstring list"
  riskLevel :: RiskLevel

record TeacherSummary =
  classAverage :: real
  topStudents :: "jsstring list"
  attentionNeeded :: "jsstring list"
  notes_field :: "jsstring list"

datatype Tone = Warm | Neutral | Direct

text \<open>An optional field is an \<open>option\<close>: \<open>None\<close> is \<open>undefined\<close>.\<close>

record TeacherPreferences =
  classGoals :: "jsstring list option"
  focusAreas :: "jsstring list option"
  preferredStrategies :: "jsstring list option"
  tone :: "Tone option"
  teacherNotes :: "jsstring option"

record StudentInsights =
  positiveObservation :: jsstring
  strengths :: "jsstring list"
  improvementAreas :: "jsstring list"
  strategies :: "jsstring list"
  nextStepGoal :: jsstring
  encouragement :: jsstring

record AttentionEntry =
  name :: jsstring
  reason :: jsstring

record TeacherInsights =
  classOverview :: jsstring
  strengths :: "jsstring list"
  attentionNeeded :: "AttentionEntry list"
  nextSteps :: "jsstring list"

section \<open>validator.ts\<close>

text \<open>\<open>EMAIL_PATTERN\<close> is \<open>/^[^@\s]+@[^@\s]+\.[^@\s]+$/\<close>.\<close>

definition emailClass :: "jschar \<Rightarrow> bool" where
  "emailClass c \<longleftrightarrow> c \<noteq> 64 \<and> \<not> isWhiteSpace c"

text \<open>
  The first run of \<open>[^@\s]\<close> ends at the first \<open>@\<close> or white space, which must
  be an \<open>@\<close>; what follows must stay in the class and hold a dot that is neither
  its first nor its last character.
\<close>

definition EMAIL_PATTERN_test :: "jsstring \<Rightarrow> bool" where
  "EMAIL_PATTERN_test s =
     (let local = takeWhile emailClass s; rest = dropWhile emailClass s
      in local \<noteq> [] \<and>
         (case rest of
            [] \<Rightarrow> False
          | c # domain \<Rightarrow>
              c = 64 \<and> list_all emailClass domain \<and> 46 \<in> set (butlast (tl domain))))"

fun isRecord :: "json \<Rightarrow> bool" where
  "isRecord (JObj _) = True"
| "isRecord _ = False"

fun isNonEmptyString :: "json option \<Rightarrow> bool" where
  "isNonEmptyString (Some (JStr s)) = (length (trim s) > 0)"
| "isNonEmptyString _ = False"

fun isFiniteNumber :: "json option \<Rightarrow> bool" where
  "isFiniteNumber (Some (JNum x)) = True"
| "isFiniteNumber _ = False"

fun inRange :: "json option \<Rightarrow> real \<Rightarrow> real \<Rightarrow> bool" where
  "inRange (Some (JNum x)) lo hi = (x \<ge> lo \<and> x \<le> hi)"
| "inRange _ lo hi = False"

text \<open>
  The string and the number inside a value that a type guard has narrowed; they are
  only applied under that guard.
\<close>

fun asString :: "json option \<Rightarrow> jsstring" where
  "asString (Some (JStr s)) = s"
| "asString _ = []"

fun asNumber :: "json option \<Rightarrow> real" where
  "asNumber (Some (JNum x)) = x"
| "asNumber _ = 0"

fun parseTrend :: "json option \<Rightarrow> PerformanceTrend option" where
  "parseTrend (Some (JStr s)) =
     (if s = ascii ''improving'' then Some Improving
      else if s = ascii ''stable'' then Some Stable
      else if s = ascii ''declining'' then Some Declining
      else None)"
| "parseTrend _ = None"

text \<open>
  \<open>Date.parse\<close> belongs to the runtime and is a parameter: \<open>dateParse s\<close> is
  \<open>None\<close> where \<open>Date.parse\<close> returns \<open>NaN\<close>.
\<close>

definition isValidDate :: "(jsstring \<Rightarrow> real option) \<Rightarrow> json option \<Rightarrow> bool" where
  "isValidDate dateParse v =
     (if \<not> isNonEmptyString v then False else dateParse (asString v) \<noteq> None)"

definition validateGrade :: "json \<Rightarrow> nat \<Rightarrow> Grade ValidationResult" where
  "validateGrade v index =
     (if \<not> isRecord v
      then Fail [ascii ''grades['' @ natToString index @ ascii ''] must be an object'']
      else
        let subject = getProp v (ascii ''subject'');
            score = getProp v (ascii ''score'');
            subjectValue = (if isNonEmptyString subject then trim (asString subject) else []);
            scoreValue = (if isFiniteNumber score then asNumber score else 0);
            errors =
              (if \<not> isNonEmptyString subject
               then [ascii ''grades['' @ natToString index
                       @ ascii ''].subject must be a non-empty string'']
               else [])
              @ (if \<not> inRange score 0 100
                 then [ascii ''grades['' @ natToString index
                         @ ascii ''].score must be a number between 0 and 100'']
                 else [])
        in if length errors > 0 then Fail errors
           else Ok \<lparr> subject = subjectValue, score = scoreValue \<rparr>)"

text \<open>
  \<open>grades.forEach\<close>: the validated grades and the errors pushed, both in source
  order.
\<close>

fun validateGrades :: "json list \<Rightarrow> nat \<Rightarrow> Grade list \<times> jsstring list" where
  "validateGrades [] gradeIndex = ([], [])"
| "validateGrades (grade # rest) gradeIndex =
     (let (validated, errors) = validateGrades rest (Suc gradeIndex)
      in case validateGrade grade gradeIndex of
           Ok g \<Rightarrow> (g # validated, errors)
         | Fail es \<Rightarrow> (validated, es @ errors))"

definition validateStudent ::
  "(jsstring \<Rightarrow> real option) \<Rightarrow> json \<Rightarrow> nat \<Rightarrow> Student ValidationResult" where
  "validateStudent dateParse v index =
     (if \<not> isRecord v
      then Fail [ascii ''students['' @ natToString index @ ascii ''] must be an object'']
      else
        let id = getProp v (ascii ''id'');
            name = getProp v (ascii ''name'');
            email = getProp v (ascii ''email'');
            grades = getProp v (ascii ''grades'');
            participationScore = getProp v (ascii ''participationScore'');
            assignmentCompletionRate = getProp v (ascii ''assignmentCompletionRate'');
            teacherNotes = getProp v (ascii ''teacherNotes'');
            performanceTrend = parseTrend (getProp v (ascii ''performanceTrend''));
            lastAssessmentDate = getProp v (ascii ''lastAssessmentDate'');
            idValue = (if isNonEmptyString id then trim (asString id) else []);
            nameValue = (if isNonEmptyString name then trim (asString name) else []);
            emailValue = (if isNonEmptyString email then trim (asString email) else []);
            participationValue =
              (if isFiniteNumber participationScore then asNumber participationScore else 0);
            completionValue =
              (if isFiniteNumber assignmentCompletionRate
               then asNumber assignmentCompletionRate else 0);
            notesValue = (case teacherNotes of Some (JStr s) \<Rightarrow> s | _ \<Rightarrow> []);
            lastAssessmentValue =
              (if isValidDate dateParse lastAssessmentDate
               then asString lastAssessmentDate else []);
            (validatedGrades, gradeErrors) =
              (case grades of
                 Some (JArr gs) \<Rightarrow>
                   if length gs = 0 then ([], [ascii ''grades must be a non-empty array''])
                   else validateGrades gs 0
               | _ \<Rightarrow> ([], [ascii ''grades must be a non-empty array'']));
            errors =
              (if \<not> isNonEmptyString id
               then [ascii ''id must be a non-empty string''] else [])
              @ (if \<not> isNonEmptyString name
                 then [ascii ''name must be a non-empty string''] else [])
              @ (if \<not> isNonEmptyString email \<or> \<not> EMAIL_PATTERN_test (asString email)
                 then [ascii ''email must be a valid address''] else [])
              @ gradeErrors
              @ (if \<not> inRange participationScore 1 10
                 then [ascii ''participationScore must be a number between 1 and 10'']
                 else [])
              @ (if \<not> inRange assignmentCompletionRate 0 100
                 then [ascii ''assignmentCompletionRate must be a number between 0 and 100'']
                 else [])
              @ (case teacherNotes of
                   Some (JStr s) \<Rightarrow> []
                 | _ \<Rightarrow> [ascii ''teacherNotes must be a string''])
              @ (if performanceTrend = None
                 then [ascii ''performanceTrend must be improving, stable, or declining'']
                 else [])
              @ (if \<not> isValidDate dateParse lastAssessmentDate
                 then [ascii ''lastAssessmentDate must be a valid date string'']
                 else [])
        in case performanceTrend of
             None \<Rightarrow> Fail errors
           | Some trendValue \<Rightarrow>
               if length errors > 0 then Fail errors
               else Ok \<lparr> id_field = idValue,
                         Student.name = nameValue,
                         email = emailValue,
                         grades = validatedGrades,
                         Student.participationScore = participationValue,
                         Student.assignmentCompletionRate = completionValue,
                         Student.teacherNotes = notesValue,
                         performanceTrend = trendValue,
                         lastAssessmentDate = lastAssessmentValue \<rparr>)"

text \<open>
  \<open>data.forEach\<close> of \<open>validateStudents\<close>: the valid students and the
  index-prefixed errors, both in source order.
\<close>

definition prefixError :: "nat \<Rightarrow> jsstring \<Rightarrow> jsstring" where
  "prefixError index error = ascii ''students['' @ natToString index @ ascii '']: '' @ error"

text \<open>
  What the body of that loop pushes to \<open>errors\<close> for the element at \<open>index\<close>:
  nothing for a valid student, each of its errors with the index prefix otherwise.
\<close>

definition contributedErrors ::
  "(jsstring \<Rightarrow> real option) \<Rightarrow> nat \<Rightarrow> json \<Rightarrow> jsstring list" where
  "contributedErrors dateParse index v =
     (case validateStudent dateParse v index of
        Ok s \<Rightarrow> []
      | Fail es \<Rightarrow> map (prefixError index) es)"

fun validateEach ::
  "(jsstring \<Rightarrow> real option) \<Rightarrow> json list \<Rightarrow> nat \<Rightarrow> Student list \<times> jsstring list" where
  "validateEach dateParse [] index = ([], [])"
| "validateEach dateParse (v # rest) index =
     (let (valid, errors) = validateEach dateParse rest (Suc index)
      in case validateStudent dateParse v index of
           Ok s \<Rightarrow> (s # valid, errors)
         | Fail es \<Rightarrow> (valid, map (prefixError index) es @ errors))"

record StudentBatch =
  valid :: "Student list"
  errors :: "jsstring list"

definition validateStudents :: "(jsstring \<Rightarrow> real option) \<Rightarrow> json \<Rightarrow> StudentBatch" where
  "validateStudents dateParse data =
     (case data of
        JArr items \<Rightarrow>
          (let (valid, errors) = validateEach dateParse items 0
           in \<lparr> valid = valid, errors = errors \<rparr>)
      | _ \<Rightarrow> \<lparr> valid = [],
                errors = [ascii ''students.json must be an array of student objects''] \<rparr>)"

section \<open>analyzer.ts\<close>

text \<open>
  A \<open>number\<close> is an IEEE 754 double. Each of \<open>+\<close>, \<open>/\<close> and \<open>*\<close> returns
  the double nearest to the exact result, a tie going to the even significand.
  \<open>toDouble\<close> is that rounding: the exponent of the last place is 52 below the
  binary exponent of the magnitude and never below \<open>-1074\<close>, where the subnormal
  numbers lie. Results of magnitude \<open>2^1024\<close> or more, which the runtime turns into
  an infinity, are outside this model; sums and averages of scores between 0 and 100
  do not reach them.
\<close>

definition roundHalfEven :: "real \<Rightarrow> int" where
  "roundHalfEven q =
     (let f = \<lfloor>q\<rfloor>; d = q - of_int f
      in if d < 1 / 2 then f
         else if d > 1 / 2 then f + 1
         else if even f then f else f + 1)"

definition toDouble :: "real \<Rightarrow> real" where
  "toDouble x =
     (if x = 0 then 0
      else (let e = max (\<lfloor>log 2 \<bar>x\<bar>\<rfloor> - 52) (- 1074)
            in sgn x * of_int (roundHalfEven (\<bar>x\<bar> / 2 powi e)) * 2 powi e))"

text \<open>
  \<open>Math.round\<close> returns the nearest integer, a tie going towards positive
  infinity; the integer is a double, so no rounding follows.
\<close>

definition mathRound :: "real \<Rightarrow> real" where
  "mathRound x = of_int \<lfloor>x + 1 / 2\<rfloor>"

text \<open>
  \<open>average\<close>: the running sum of \<open>reduce\<close>, the quotient by the length, the
  product with 100 and the final quotient by 100 are each rounded to a double.
\<close>

definition average :: "real list \<Rightarrow> real" where
  "average scores =
     (if length scores = 0 then 0
      else (let sum = foldl (\<lambda>acc score. toDouble (acc + score)) 0 scores
            in toDouble
                 (mathRound (toDouble (toDouble (sum / real (length scores)) * 100)) / 100)))"

text \<open>
  \<open>Array.prototype.sort\<close> with a comparator is stable: of two elements the
  comparator does not order strictly, the one that came first stays first. The model
  inserts each element, from the last to the first, before the first element it does
  not have to follow.
\<close>

fun insertBy :: "('a \<Rightarrow> 'a \<Rightarrow> real) \<Rightarrow> 'a \<Rightarrow> 'a list \<Rightarrow> 'a list" where
  "insertBy cmp x [] = [x]"
| "insertBy cmp x (y # ys) =
     (if cmp x y \<le> 0 then x # y # ys else y # insertBy cmp x ys)"

definition sortBy :: "('a \<Rightarrow> 'a \<Rightarrow> real) \<Rightarrow> 'a list \<Rightarrow> 'a list" where
  "sortBy cmp xs = foldr (insertBy cmp) xs []"

text \<open>
  \<open>topN\<close> and \<open>bottomN\<close> as functions of the contents of \<open>items\<close>; the arrays
  they allocate and sort are in the section on the store below.
\<close>

definition topN :: "'a list \<Rightarrow> nat \<Rightarrow> ('a \<Rightarrow> real) \<Rightarrow> 'a list" where
  "topN items n scoreOf = slice (sortBy (\<lambda>a b. scoreOf b - scoreOf a) items) 0 (int n)"

definition bottomN :: "'a list \<Rightarrow> nat \<Rightarrow> ('a \<Rightarrow> real) \<Rightarrow> 'a list" where
  "bottomN items n scoreOf = slice (sortBy (\<lambda>a b. scoreOf a - scoreOf b) items) 0 (int n)"

definition determineRisk :: "StudentMetrics \<Rightarrow> PerformanceTrend \<Rightarrow> RiskLevel" where
  "determineRisk m trend =
     (if averageScore m < 70
         \<or> StudentMetrics.participationScore m \<le> 4
         \<or> StudentMetrics.assignmentCompletionRate m < 70
         \<or> trend = Declining
      then High
      else if averageScore m < 80
         \<or> StudentMetrics.participationScore m \<le> 6
         \<or> StudentMetrics.assignmentCompletionRate m < 85
      then Medium
      else Low)"

definition analyzeStudent :: "Student \<Rightarrow> StudentAnalysis" where
  "analyzeStudent s =
     (let averageScore = average (map score (grades s));
          highestSubjects = topN (grades s) 2 score;
          lowestSubjects = bottomN (grades s) 2 score;
          metrics =
            \<lparr> averageScore = averageScore,
              highestSubjects = highestSubjects,
              lowestSubjects = lowestSubjects,
              StudentMetrics.participationScore = Student.participationScore s,
              StudentMetrics.assignmentCompletionRate =
                Student.assignmentCompletionRate s,
              needsAttention =
                (averageScore < 75
                 \<or> Student.assignmentCompletionRate s < 80
                 \<or> performanceTrend s = Declining) \<rparr>;
          strengths =
            (if averageScore \<ge> 85 then [ascii ''Strong overall academic performance'']
             else [])
            @ (if Student.participationScore s \<ge> 8
               then [ascii ''Consistent class participation''] else [])
            @ (if Student.assignmentCompletionRate s \<ge> 90
               then [ascii ''High assignment completion rate''] else [])
            @ (if performanceTrend s = Improving
               then [ascii ''Recent performance trend is improving''] else []);
          improvementAreas =
            (if averageScore < 75 then [ascii ''Overall grade average needs improvement'']
             else [])
            @ (if Student.participationScore s \<le> 6
               then [ascii ''Increase class participation''] else [])
            @ (if Student.assignmentCompletionRate s < 85
               then [ascii ''Improve assignment completion rate''] else [])
            @ (if performanceTrend s = Declining
               then [ascii ''Address recent performance decline''] else [])
            @ (if length lowestSubjects > 0
               then [ascii ''Focus on weaker subjects: ''
                       @ join (ascii '', '') (map subject lowestSubjects)]
               else []);
          riskLevel = determineRisk metrics (performanceTrend s)
      in \<lparr> student = s,
           metrics = metrics,
           StudentAnalysis.strengths = strengths,
           StudentAnalysis.improvementAreas = improvementAreas,
           riskLevel = riskLevel \<rparr>)"

subsection \<open>The arrays of \<open>topN\<close> and \<open>bottomN\<close>\<close>

text \<open>
  \<open>sort\<close> reorders its array in place, so whether \<open>items\<close> survives depends on
  which array is sorted. A store maps references to arrays; \<open>nextRef\<close> is the
  first reference not yet allocated.
\<close>

record 'a store =
  arrays :: "nat \<Rightarrow> 'a list option"
  nextRef :: nat

definition readArray :: "'a store \<Rightarrow> nat \<Rightarrow> 'a list" where
  "readArray h r = (case arrays h r of Some xs \<Rightarrow> xs | None \<Rightarrow> [])"

definition newArray :: "'a list \<Rightarrow> 'a store \<Rightarrow> nat \<times> 'a store" where
  "newArray xs h =
     (nextRef h, h\<lparr> arrays := (arrays h)(nextRef h \<mapsto> xs), nextRef := Suc (nextRef h) \<rparr>)"

text \<open>The spread \<open>[...items]\<close> allocates a new array with the elements of \<open>items\<close>.\<close>

definition spreadCopy :: "nat \<Rightarrow> 'a store \<Rightarrow> nat \<times> 'a store" where
  "spreadCopy r h = newArray (readArray h r) h"

text \<open>\<open>r.sort(cmp)\<close> overwrites the array at \<open>r\<close> and returns \<open>r\<close>.\<close>

definition sortInPlace :: "('a \<Rightarrow> 'a \<Rightarrow> real) \<Rightarrow> nat \<Rightarrow> 'a store \<Rightarrow> nat \<times> 'a store" where
  "sortInPlace cmp r h = (r, h\<lparr> arrays := (arrays h)(r \<mapsto> sortBy cmp (readArray h r)) \<rparr>)"

text \<open>\<open>r.slice(start, end)\<close> allocates the array it returns.\<close>

definition sliceArray :: "nat \<Rightarrow> int \<Rightarrow> int \<Rightarrow> 'a store \<Rightarrow> nat \<times> 'a store" where
  "sliceArray r start end h = newArray (slice (readArray h r) start end) h"

definition topN_store :: "nat \<Rightarrow> nat \<Rightarrow> ('a \<Rightarrow> real) \<Rightarrow> 'a store \<Rightarrow> nat \<times> 'a store" where
  "topN_store items n scoreOf h =
     (let (copy, h1) = spreadCopy items h;
          (sorted, h2) = sortInPlace (\<lambda>a b. scoreOf b - scoreOf a) copy h1
      in sliceArray sorted 0 (int n) h2)"

definition bottomN_store :: "nat \<Rightarrow> nat \<Rightarrow> ('a \<Rightarrow> real) \<Rightarrow> 'a store \<Rightarrow> nat \<times> 'a store" where
  "bottomN_store items n scoreOf h =
     (let (copy, h1) = spreadCopy items h;
          (sorted, h2) = sortInPlace (\<lambda>a b. scoreOf a - scoreOf b) copy h1
      in sliceArray sorted 0 (int n) h2)"

section \<open>insights.ts: extraction of the JSON candidate\<close>

definition lbrace :: jschar where
  "lbrace = 123"

definition rbrace :: jschar where
  "rbrace = 125"

definition extractJsonObject :: "jsstring \<Rightarrow> jsstring option" where
  "extractJsonObject text =
     (let start = indexOf text lbrace;
          end = lastIndexOf text rbrace
      in if start = - 1 \<or> end = - 1 \<or> end \<le> start then None
         else Some (slice text start (end + 1)))"

section \<open>insights.ts: validation of the provider's JSON\<close>

definition safeString :: "json option \<Rightarrow> nat \<Rightarrow> jsstring option" where
  "safeString v maxLen =
     (case v of
        Some (JStr s) \<Rightarrow>
          (let trimmed = trim s
           in if trimmed = [] then None
              else Some (if length trimmed > maxLen then slice trimmed 0 (int maxLen)
                         else trimmed))
      | _ \<Rightarrow> None)"

text \<open>
  \<open>map\<close> with \<open>safeString\<close> and \<open>filter(Boolean)\<close>: \<open>safeString\<close> never
  returns the empty string, so exactly the \<open>undefined\<close> results are dropped.
\<close>

definition normalizeStringArray ::
  "json option \<Rightarrow> nat \<Rightarrow> nat \<Rightarrow> jsstring \<Rightarrow> jsstring list ValidationResult" where
  "normalizeStringArray v minItems maxItems label =
     (case v of
        Some (JArr items) \<Rightarrow>
          (let cleaned = List.map_filter (\<lambda>item. safeString (Some item) 180) items
           in if length cleaned < minItems
              then Fail [label @ ascii '' must include at least '' @ natToString minItems
                           @ ascii '' item(s)'']
              else Ok (slice cleaned 0 (int maxItems)))
      | _ \<Rightarrow> Fail [label @ ascii '' must be an array''])"

text \<open>\<open>typeof v === "object" && v !== null\<close> holds of objects and of arrays.\<close>

fun isObjectType :: "json \<Rightarrow> bool" where
  "isObjectType (JObj _) = True"
| "isObjectType (JArr _) = True"
| "isObjectType _ = False"

text \<open>
  \<open>JSON.parse\<close> belongs to the runtime and is a parameter: \<open>jsonParse s\<close> is
  \<open>None\<close> where \<open>JSON.parse\<close> throws. A value asserted \<open>as string\<close>, or read
  from a result the source has found \<open>ok\<close>, is \<open>the\<close> or \<open>resultValue\<close> of it.
\<close>

definition parseStudentInsights ::
  "(jsstring \<Rightarrow> json option) \<Rightarrow> jsstring \<Rightarrow> StudentInsights ValidationResult" where
  "parseStudentInsights jsonParse raw =
     (case extractJsonObject raw of
        None \<Rightarrow> Fail [ascii ''No JSON object found in response'']
      | Some jsonCandidate \<Rightarrow>
          if jsonCandidate = [] then Fail [ascii ''No JSON object found in response'']
          else
            (case jsonParse jsonCandidate of
               None \<Rightarrow> Fail [ascii ''Invalid JSON in response'']
             | Some parsed \<Rightarrow>
                 if \<not> isObjectType parsed
                 then Fail [ascii ''Response JSON must be an object'']
                 else
                   let positiveObservation =
                         safeString (getProp parsed (ascii ''positiveObservation'')) 220;
                       nextStepGoal = safeString (getProp parsed (ascii ''nextStepGoal'')) 200;
                       encouragement = safeString (getProp parsed (ascii ''encouragement'')) 200;
                       strengthsResult =
                         normalizeStringArray (getProp parsed (ascii ''strengths'')) 1 3
                           (ascii ''strengths'');
                       improvementResult =
                         normalizeStringArray (getProp parsed (ascii ''improvementAreas'')) 1 2
                           (ascii ''improvementAreas'');
                       strategiesResult =
                         normalizeStringArray (getProp parsed (ascii ''strategies'')) 2 3
                           (ascii ''strategies'')
                   in if \<not> isOk strengthsResult \<or> \<not> isOk improvementResult
                         \<or> \<not> isOk strategiesResult
                      then Fail [ascii ''Invalid student insights payload'']
                      else
                        let errors =
                              (if positiveObservation = None
                               then [ascii ''positiveObservation must be a non-empty string'']
                               else [])
                              @ (if nextStepGoal = None
                                 then [ascii ''nextStepGoal must be a non-empty string'']
                                 else [])
                              @ (if encouragement = None
                                 then [ascii ''encouragement must be a non-empty string'']
                                 else [])
                              @ (if \<not> isOk strengthsResult
                                 then resultErrors strengthsResult else [])
                              @ (if \<not> isOk improvementResult
                                 then resultErrors improvementResult else [])
                              @ (if \<not> isOk strategiesResult
                                 then resultErrors strategiesResult else [])
                        in if length errors > 0 then Fail errors
                           else Ok \<lparr> positiveObservation = the positiveObservation,
                                     StudentInsights.strengths = resultValue strengthsResult,
                                     StudentInsights.improvementAreas =
                                       resultValue improvementResult,
                                     strategies = resultValue strategiesResult,
                                     nextStepGoal = the nextStepGoal,
                                     encouragement = the encouragement \<rparr>))"

text \<open>
  \<open>attentionRaw.forEach\<close>: the entries accepted and the errors pushed, both in
  source order.
\<close>

fun validateAttention :: "json list \<Rightarrow> nat \<Rightarrow> AttentionEntry list \<times> jsstring list" where
  "validateAttention [] index = ([], [])"
| "validateAttention (item # rest) index =
     (let (attentionNeeded, attentionErrors) = validateAttention rest (Suc index)
      in if \<not> isObjectType item
         then (attentionNeeded,
               (ascii ''attentionNeeded['' @ natToString index @ ascii ''] must be an object'')
                 # attentionErrors)
         else
           let name = safeString (getProp item (ascii ''name'')) 80;
               reason = safeString (getProp item (ascii ''reason'')) 160
           in if name = None \<or> reason = None
              then (attentionNeeded,
                    (ascii ''attentionNeeded['' @ natToString index
                       @ ascii ''] must include name and reason'') # attentionErrors)
              else (\<lparr> AttentionEntry.name = the name, reason = the reason \<rparr>
                      # attentionNeeded,
                    attentionErrors))"

definition parseTeacherInsights ::
  "(jsstring \<Rightarrow> json option) \<Rightarrow> jsstring \<Rightarrow> TeacherInsights ValidationResult" where
  "parseTeacherInsights jsonParse raw =
     (case extractJsonObject raw of
        None \<Rightarrow> Fail [ascii ''No JSON object found in response'']
      | Some jsonCandidate \<Rightarrow>
          if jsonCandidate = [] then Fail [ascii ''No JSON object found in response'']
          else
            (case jsonParse jsonCandidate of
               None \<Rightarrow> Fail [ascii ''Invalid JSON in response'']
             | Some parsed \<Rightarrow>
                 if \<not> isObjectType parsed
                 then Fail [ascii ''Response JSON must be an object'']
                 else
                   let classOverview =
                         safeString (getProp parsed (ascii ''classOverview'')) 240;
                       strengthsResult =
                         normalizeStringArray (getProp parsed (ascii ''strengths'')) 1 4
                           (ascii ''strengths'');
                       nextStepsResult =
                         normalizeStringArray (getProp parsed (ascii ''nextSteps'')) 2 4
                           (ascii ''nextSteps'');
                       attentionRaw = getProp parsed (ascii ''attentionNeeded'');
                       (attentionNeeded, attentionErrors) =
                         (case attentionRaw of
                            Some (JArr items) \<Rightarrow> validateAttention items 0
                          | _ \<Rightarrow> ([], [ascii ''attentionNeeded must be an array'']));
                       errors =
                         (if classOverview = None
                          then [ascii ''classOverview must be a non-empty string'']
                          else [])
                         @ (if \<not> isOk strengthsResult
                            then resultErrors strengthsResult else [])
                         @ (if \<not> isOk nextStepsResult
                            then resultErrors nextStepsResult else [])
                         @ (if length attentionErrors > 0 then attentionErrors else [])
                   in if length errors > 0 then Fail errors
                      else if \<not> isOk strengthsResult \<or> \<not> isOk nextStepsResult
                      then Fail [ascii ''Invalid teacher insights payload'']
                      else Ok \<lparr> classOverview = the classOverview,
                                TeacherInsights.strengths = resultValue strengthsResult,
                                TeacherInsights.attentionNeeded = attentionNeeded,
                                nextSteps = resultValue nextStepsResult \<rparr>))"

section \<open>insights.ts: rendering\<close>

definition bullet :: "jsstring \<Rightarrow> jsstring" where
  "bullet item = ascii ''- '' @ item"

definition newline :: jsstring where
  "newline = [10]"

definition renderStudentMessage :: "StudentInsights \<Rightarrow> jsstring" where
  "renderStudentMessage insights =
     join newline
       ([positiveObservation insights, [], ascii ''Strengths:'']
        @ map bullet (StudentInsights.strengths insights)
        @ [[], ascii ''Focus areas:'']
        @ map bullet (StudentInsights.improvementAreas insights)
        @ [[], ascii ''Try this:'']
        @ map bullet (strategies insights)
        @ [[], ascii ''Next step goal: '' @ nextStepGoal insights, [],
           encouragement insights])"

definition attentionLine :: "AttentionEntry \<Rightarrow> jsstring" where
  "attentionLine item = ascii ''- '' @ AttentionEntry.name item @ ascii '': '' @ reason item"

definition renderTeacherMessage :: "TeacherInsights \<Rightarrow> jsstring" where
  "renderTeacherMessage insights =
     (let attentionLines =
            (if length (TeacherInsights.attentionNeeded insights) > 0
             then map attentionLine (TeacherInsights.attentionNeeded insights)
             else [ascii ''- No students flagged for immediate attention.''])
      in join newline
           ([classOverview insights, [], ascii ''Class strengths:'']
            @ map bullet (TeacherInsights.strengths insights)
            @ [[], ascii ''Students needing attention:'']
            @ attentionLines
            @ [[], ascii ''Next steps (next week):'']
            @ map bullet (nextSteps insights)))"

section \<open>insights.ts: the deterministic fallback\<close>

text \<open>
  \<open>preferred.forEach\<close>, pushing an item while the array has fewer than \<open>limit\<close>
  elements: the limit is 3 in the student fallback and 2 in the teacher fallback.
\<close>

fun pushWhileBelow :: "nat \<Rightarrow> jsstring list \<Rightarrow> jsstring list \<Rightarrow> jsstring list" where
  "pushWhileBelow limit acc [] = acc"
| "pushWhileBelow limit acc (item # rest) =
     pushWhileBelow limit (if length acc < limit then acc @ [item] else acc) rest"

definition genericStrategy :: jsstring where
  "genericStrategy = ascii ''Ask for quick feedback from your teacher on one recent assignment.''"

text \<open>\<open>while (strategies.length < 2)\<close>, pushing the generic strategy.\<close>

function padStrategies :: "jsstring list \<Rightarrow> jsstring list" where
  "padStrategies acc =
     (if length acc < 2 then padStrategies (acc @ [genericStrategy]) else acc)"
  by pat_completeness auto
termination
  by (relation "measure (\<lambda>acc. 2 - length acc)") auto

declare padStrategies.simps [simp del]

definition deadlineTip :: jsstring where
  "deadlineTip = ascii ''Use a checklist and finish assignments 24 hours before the deadline.''"

definition engagementTip :: jsstring where
  "engagementTip = ascii ''Prepare one question or comment before class and share it.''"

definition studyRoutineTip :: jsstring where
  "studyRoutineTip =
     ascii ''Set a 20-minute daily review block and summarize notes in your own words.''"

definition subjectTip :: "Grade list \<Rightarrow> jsstring" where
  "subjectTip lowest =
     ascii ''Spend extra practice time on '' @ join (ascii '', '') (map subject lowest)
       @ ascii '' with short, focused sessions.''"

text \<open>Step 3 of \<open>buildFallbackStudentInsights\<close>: the rule ladder, in source order.\<close>

definition strategyLadder :: "StudentAnalysis \<Rightarrow> jsstring list" where
  "strategyLadder analysis =
     (if StudentMetrics.assignmentCompletionRate (metrics analysis) < 85
      then [deadlineTip] else [])
     @ (if StudentMetrics.participationScore (metrics analysis) \<le> 6
        then [engagementTip] else [])
     @ (if averageScore (metrics analysis) < 75 then [studyRoutineTip] else [])
     @ (if length (lowestSubjects (metrics analysis)) > 0
        then [subjectTip (lowestSubjects (metrics analysis))] else [])"

text \<open>
  Step 4: \<open>preferences?.preferredStrategies?.filter((item) => item.trim()) ?? []\<close>.
\<close>

definition preferredNonBlank :: "TeacherPreferences option \<Rightarrow> jsstring list" where
  "preferredNonBlank preferences =
     (case preferences of
        None \<Rightarrow> []
      | Some p \<Rightarrow>
          (case preferredStrategies p of
             None \<Rightarrow> []
           | Some items \<Rightarrow> filter (\<lambda>item. trim item \<noteq> []) items))"

definition genericGoal :: jsstring where
  "genericGoal = ascii ''Choose one focus area and practice it three times this week.''"

text \<open>Step 6: \<open>preferences?.classGoals?.[0]?.trim() || genericGoal\<close>.\<close>

definition fallbackGoal :: "TeacherPreferences option \<Rightarrow> jsstring" where
  "fallbackGoal preferences =
     (case preferences of
        None \<Rightarrow> genericGoal
      | Some p \<Rightarrow>
          (case classGoals p of
             None \<Rightarrow> genericGoal
           | Some [] \<Rightarrow> genericGoal
           | Some (g # _) \<Rightarrow> if trim g \<noteq> [] then trim g else genericGoal))"

text \<open>The closing sentence has an em dash, the code unit 8212.\<close>

definition fixedEncouragement :: jsstring where
  "fixedEncouragement =
     ascii ''Small steps add up'' @ [8212]
       @ ascii ''keep going, and reach out if you need support.''"

definition buildFallbackStudentInsights ::
  "StudentAnalysis \<Rightarrow> TeacherPreferences option \<Rightarrow> StudentInsights" where
  "buildFallbackStudentInsights analysis preferences =
     (let strengths =
            (if length (StudentAnalysis.strengths analysis) > 0
             then StudentAnalysis.strengths analysis
             else [ascii ''You're making steady progress across your classes.'']);
          improvementAreas =
            (if length (StudentAnalysis.improvementAreas analysis) > 0
             then slice (StudentAnalysis.improvementAreas analysis) 0 2
             else [ascii ''Keep building consistency with assignments and review routines.'']);
          strategies =
            padStrategies
              (pushWhileBelow 3 (strategyLadder analysis) (preferredNonBlank preferences));
          goal = fallbackGoal preferences
      in \<lparr> positiveObservation = strengths ! 0,
           StudentInsights.strengths = slice strengths 0 3,
           StudentInsights.improvementAreas = improvementAreas,
           strategies = slice strategies 0 3,
           nextStepGoal = goal,
           encouragement = fixedEncouragement \<rparr>)"

text \<open>
  \<open>Number.prototype.toFixed(1)\<close> of a finite double of magnitude below \<open>10^21\<close>:
  the sign, then the integer \<open>n\<close> with \<open>n / 10\<close> nearest to the magnitude (the larger
  of two), written with one digit after the point. Larger magnitudes are printed in
  exponent notation by the runtime and are outside this model.
\<close>

definition toFixed1 :: "real \<Rightarrow> jsstring" where
  "toFixed1 x =
     (let n = nat \<lfloor>\<bar>x\<bar> * 10 + 1 / 2\<rfloor>
      in (if x < 0 then ascii ''-'' else [])
         @ natToString (n div 10) @ ascii ''.'' @ natToString (n mod 10))"

text \<open>\<open>preferences?.preferredStrategies ?? []\<close> of the teacher fallback.\<close>

definition preferredOrEmpty :: "TeacherPreferences option \<Rightarrow> jsstring list" where
  "preferredOrEmpty preferences =
     (case preferences of
        None \<Rightarrow> []
      | Some p \<Rightarrow> (case preferredStrategies p of None \<Rightarrow> [] | Some items \<Rightarrow> items))"

definition genericReason :: jsstring where
  "genericReason = ascii ''Flagged for additional check-ins based on recent trends.''"

definition buildFallbackTeacherInsights ::
  "TeacherSummary \<Rightarrow> TeacherPreferences option \<Rightarrow> TeacherInsights" where
  "buildFallbackTeacherInsights summary preferences =
     (let strengths =
            (if length (topStudents summary) > 0
             then [ascii ''Top performers this cycle: ''
                     @ join (ascii '', '') (topStudents summary) @ ascii ''.'']
             else [ascii ''Several students are maintaining steady performance.'']);
          attentionNeeded =
            map (\<lambda>n. \<lparr> AttentionEntry.name = n, reason = genericReason \<rparr>)
              (TeacherSummary.attentionNeeded summary);
          nextSteps0 = pushWhileBelow 2 [] (preferredOrEmpty preferences);
          nextSteps =
            (if length nextSteps0 < 2
             then nextSteps0
                    @ [ascii ''Plan one small-group session for students needing support.'',
                       ascii ''Highlight one success story to reinforce growth mindset.'']
             else nextSteps0)
      in \<lparr> classOverview =
             ascii ''Class average is '' @ toFixed1 (classAverage summary)
               @ ascii ''. Overall trends are stable with a few students needing additional attention.'',
           TeacherInsights.strengths = strengths,
           TeacherInsights.attentionNeeded = attentionNeeded,
           nextSteps = slice nextSteps 0 4 \<rparr>)"

section \<open>main.ts: from the provider's text to the message\<close>

text \<open>
  The steps of \<open>runOnce\<close> between the provider's answer \<open>rawInsights\<close> and the
  e-mail: parse, fall back when the parse is not \<open>ok\<close>, render.
\<close>

record StudentOutcome =
  insights :: StudentInsights
  message :: jsstring
  usedFallback :: bool

definition studentOutcome ::
  "(jsstring \<Rightarrow> json option) \<Rightarrow> jsstring \<Rightarrow> StudentAnalysis
     \<Rightarrow> TeacherPreferences option \<Rightarrow> StudentOutcome" where
  "studentOutcome jsonParse rawInsights analysis teacherRules =
     (let parsed = parseStudentInsights jsonParse rawInsights;
          fellBack = \<not> isOk parsed;
          chosen = (if isOk parsed then resultValue parsed
                    else buildFallbackStudentInsights analysis teacherRules)
      in \<lparr> insights = chosen,
           message = renderStudentMessage chosen,
           usedFallback = fellBack \<rparr>)"

text \<open>
  A call that may throw: the message of the error, or the value returned. In the
  \<open>try\<close> block of \<open>runOnce\<close> for one student, \<open>generated\<close> is the outcome of
  \<open>await agent.generateStudentInsights(analysis)\<close> and \<open>sendEmail\<close> that of
  building and sending the e-mail of a message. The block ends with the row recorded
  as \<open>sent\<close>; its \<open>catch\<close> records \<open>insights_failed\<close> with the error,
  without insights and with \<open>usedFallback: false\<close>.
\<close>

datatype 'a attempt = Threw jsstring | Returned 'a

datatype StudentStep = Sent StudentOutcome | InsightsFailed jsstring

definition processStudent ::
  "(jsstring \<Rightarrow> json option) \<Rightarrow> jsstring attempt \<Rightarrow> (jsstring \<Rightarrow> jsstring option attempt)
     \<Rightarrow> StudentAnalysis \<Rightarrow> TeacherPreferences option \<Rightarrow> StudentStep" where
  "processStudent jsonParse generated sendEmail analysis teacherRules =
     (case generated of
        Threw error \<Rightarrow> InsightsFailed error
      | Returned rawInsights \<Rightarrow>
          (let outcome = studentOutcome jsonParse rawInsights analysis teacherRules
           in case sendEmail (message outcome) of
                Threw error \<Rightarrow> InsightsFailed error
              | Returned emailPath \<Rightarrow> Sent outcome))"

record TeacherOutcome =
  teacherInsights :: TeacherInsights
  teacherMessage :: jsstring
  teacherUsedFallback :: bool

definition teacherOutcome ::
  "(jsstring \<Rightarrow> json option) \<Rightarrow> jsstring \<Rightarrow> TeacherSummary
     \<Rightarrow> TeacherPreferences option \<Rightarrow> TeacherOutcome" where
  "teacherOutcome jsonParse rawSummary teacherSummary teacherRules =
     (let parsed = parseTeacherInsights jsonParse rawSummary;
          fellBack = \<not> isOk parsed;
          chosen = (if isOk parsed then resultValue parsed
                    else buildFallbackTeacherInsights teacherSummary teacherRules)
      in \<lparr> teacherInsights = chosen,
           teacherMessage = renderTeacherMessage chosen,
           teacherUsedFallback = fellBack \<rparr>)"

section \<open>The schema of the insights\<close>

text \<open>
  The bounds of \<open>StudentInsights\<close> and \<open>TeacherInsights\<close>: a text is a non-empty
  string within its cap, and each list has its least and greatest number of entries.
\<close>

definition validText :: "nat \<Rightarrow> jsstring \<Rightarrow> bool" where
  "validText cap s \<longleftrightarrow> s \<noteq> [] \<and> length s \<le> cap"

definition validTexts :: "nat \<Rightarrow> nat \<Rightarrow> jsstring list \<Rightarrow> bool" where
  "validTexts lo hi xs \<longleftrightarrow> lo \<le> length xs \<and> length xs \<le> hi \<and> list_all (validText 180) xs"

definition studentSchema :: "StudentInsights \<Rightarrow> bool" where
  "studentSchema i \<longleftrightarrow>
     validText 220 (positiveObservation i)
     \<and> validTexts 1 3 (StudentInsights.strengths i)
     \<and> validTexts 1 2 (StudentInsights.improvementAreas i)
     \<and> validTexts 2 3 (strategies i)
     \<and> validText 200 (nextStepGoal i)
     \<and> validText 200 (encouragement i)"

definition validAttention :: "AttentionEntry \<Rightarrow> bool" where
  "validAttention e \<longleftrightarrow> validText 80 (AttentionEntry.name e) \<and> validText 160 (reason e)"

definition teacherSchema :: "TeacherInsights \<Rightarrow> bool" where
  "teacherSchema i \<longleftrightarrow>
     validText 240 (classOverview i)
     \<and> validTexts 1 4 (TeacherInsights.strengths i)
     \<and> list_all validAttention (TeacherInsights.attentionNeeded i)
     \<and> validTexts 2 4 (nextSteps i)"

section \<open>tests/analyzer_test.ts\<close>

text \<open>The student record of the analyzer test.\<close>

definition testStudent :: Student where
  "testStudent =
     \<lparr> id_field = ascii ''S100'',
       Student.name = ascii ''Test Student'',
       email = ascii ''test@example.com'',
       grades = [\<lparr> subject = ascii ''Math'', score = 90 \<rparr>,
                 \<lparr> subject = ascii ''English'', score = 70 \<rparr>],
       Student.participationScore = 5,
       Student.assignmentCompletionRate = 60,
       Student.teacherNotes = ascii ''Needs confidence in class.'',
       performanceTrend = Declining,
       lastAssessmentDate = ascii ''2024-09-01'' \<rparr>"

section \<open>Properties of the extraction\<close>

lemma slice_0_take: "slice xs 0 (int n) = take n xs"
  by (simp add: slice_def Let_def min_def)

lemma indexOf_ge: "indexOf xs c \<ge> - 1"
  by (induction xs) (auto simp: Let_def)

lemma indexOf_notin: "c \<notin> set xs \<Longrightarrow> indexOf xs c = - 1"
  by (induction xs) (auto simp: Let_def)

lemma indexOf_append: "c \<notin> set pre \<Longrightarrow> indexOf (pre @ c # rest) c = int (length pre)"
  by (induction pre) (auto simp: Let_def)

lemma indexOf_split:
  "indexOf xs c \<noteq> - 1 \<Longrightarrow> \<exists>pre rest. xs = pre @ c # rest \<and> c \<notin> set pre"
proof -
  assume "indexOf xs c \<noteq> - 1"
  then have "c \<in> set xs" using indexOf_notin by metis
  then show ?thesis by (meson split_list_first)
qed

lemma lastIndexOf_notin: "c \<notin> set xs \<Longrightarrow> lastIndexOf xs c = - 1"
  by (induction xs) (auto simp: Let_def)

lemma lastIndexOf_append:
  "c \<notin> set suf \<Longrightarrow> lastIndexOf (xs @ c # suf) c = int (length xs)"
  by (induction xs) (auto simp: Let_def lastIndexOf_notin)

lemma lastIndexOf_split:
  "lastIndexOf xs c \<noteq> - 1 \<Longrightarrow> \<exists>ys suf. xs = ys @ c # suf \<and> c \<notin> set suf"
proof -
  assume "lastIndexOf xs c \<noteq> - 1"
  then have "c \<in> set xs" using lastIndexOf_notin by metis
  then show ?thesis by (meson split_list_last)
qed

lemma slice_span:
  "slice (pre @ c # mid @ d # suf) (int (length pre)) (int (length pre + 1 + length mid) + 1)
     = c # mid @ [d]"
proof -
  have n: "nat (2 + int (length mid)) = Suc (Suc (length mid))" by simp
  show ?thesis by (simp add: slice_def Let_def min_def n)
qed

lemma extract_wrapped:
  assumes "lbrace \<notin> set pre" "rbrace \<notin> set suf"
  shows "extractJsonObject (pre @ lbrace # mid @ rbrace # suf) = Some (lbrace # mid @ [rbrace])"
proof -
  have s: "indexOf (pre @ lbrace # mid @ rbrace # suf) lbrace = int (length pre)"
    using assms(1) by (rule indexOf_append)
  have "lastIndexOf ((pre @ lbrace # mid) @ rbrace # suf) rbrace = int (length (pre @ lbrace # mid))"
    using assms(2) by (rule lastIndexOf_append)
  then have e: "lastIndexOf (pre @ lbrace # mid @ rbrace # suf) rbrace = int (length pre + 1 + length mid)"
    by simp
  show ?thesis
    unfolding extractJsonObject_def s e Let_def
    using slice_span [of pre lbrace mid rbrace suf] by simp
qed

lemma extract_Some_split:
  assumes "extractJsonObject text = Some s"
  shows "\<exists>pre mid suf. text = pre @ lbrace # mid @ rbrace # suf
           \<and> lbrace \<notin> set pre \<and> rbrace \<notin> set suf \<and> s = lbrace # mid @ [rbrace]"
proof -
  from assms have st: "indexOf text lbrace \<noteq> - 1" and en: "lastIndexOf text rbrace \<noteq> - 1"
    and lt: "indexOf text lbrace < lastIndexOf text rbrace"
    by (auto simp: extractJsonObject_def Let_def split: if_splits)
  from indexOf_split [OF st] obtain pre rest where
    t1: "text = pre @ lbrace # rest" and p: "lbrace \<notin> set pre" by blast
  from lastIndexOf_split [OF en] obtain ys suf where
    t2: "text = ys @ rbrace # suf" and q: "rbrace \<notin> set suf" by blast
  have i1: "indexOf text lbrace = int (length pre)" using t1 p indexOf_append by metis
  have i2: "lastIndexOf text rbrace = int (length ys)" using t2 q lastIndexOf_append by metis
  from lt i1 i2 have len: "length pre < length ys" by simp
  from t1 t2 have eq: "pre @ lbrace # rest = ys @ rbrace # suf" by simp
  from eq obtain us where
    "(pre = ys @ us \<and> us @ lbrace # rest = rbrace # suf)
       \<or> (pre @ us = ys \<and> lbrace # rest = us @ rbrace # suf)"
    unfolding append_eq_append_conv2 by blast
  with len have us: "pre @ us = ys" "lbrace # rest = us @ rbrace # suf" by auto
  from us(1) len have "us \<noteq> []" by auto
  with us(2) obtain mid where "us = lbrace # mid" by (cases us) auto
  with us(1) have ys: "ys = pre @ lbrace # mid" by simp
  have t3: "text = pre @ lbrace # mid @ rbrace # suf" using t2 ys by simp
  from extract_wrapped [OF p q, of mid] assms t3 have "s = lbrace # mid @ [rbrace]" by simp
  with t3 p q show ?thesis by blast
qed


lemma parse_student_via_extract:
  "extractJsonObject a = extractJsonObject b \<Longrightarrow>
     parseStudentInsights jp a = parseStudentInsights jp b"
  by (simp add: parseStudentInsights_def)

lemma parse_teacher_via_extract:
  "extractJsonObject a = extractJsonObject b \<Longrightarrow>
     parseTeacherInsights jp a = parseTeacherInsights jp b"
  by (simp add: parseTeacherInsights_def)

text \<open>
  Claim C5. \<open>extractJsonObject\<close> returns a span exactly when the text splits into
  a prefix without an opening brace, an opening brace, a middle part, a closing brace
  and a suffix without a closing brace, and the span is then the part from that first
  opening brace to that last closing brace, both included. In every other case it
  returns nothing and both parsers fail with the single error
  \<open>No JSON object found in response\<close>; a text without any brace is such a case.
  Prose without an opening brace before an embedded object and prose without a closing
  brace after it do not change the candidate: the parser is handed the embedded
  object itself, which parses, and the result is that of the bare object.
\<close>

theorem extractJsonObject_first_to_last:
  "(extractJsonObject text = Some s \<longleftrightarrow>
      (\<exists>pre mid suf. text = pre @ lbrace # mid @ rbrace # suf
          \<and> lbrace \<notin> set pre \<and> rbrace \<notin> set suf \<and> s = lbrace # mid @ [rbrace]))
   \<and> (extractJsonObject text = None \<longleftrightarrow>
      \<not> (\<exists>pre mid suf. text = pre @ lbrace # mid @ rbrace # suf
          \<and> lbrace \<notin> set pre \<and> rbrace \<notin> set suf))
   \<and> (extractJsonObject text = None \<longrightarrow>
      parseStudentInsights jsonParse text = Fail [ascii ''No JSON object found in response'']
      \<and> parseTeacherInsights jsonParse text = Fail [ascii ''No JSON object found in response''])
   \<and> (lbrace \<notin> set text \<and> rbrace \<notin> set text \<longrightarrow> extractJsonObject text = None)
   \<and> (lbrace \<notin> set prose \<and> rbrace \<notin> set thanks
        \<and> jsonParse (lbrace # body @ [rbrace]) = Some v \<longrightarrow>
      (\<exists>c. extractJsonObject (prose @ lbrace # body @ rbrace # thanks) = Some c
          \<and> c = lbrace # body @ [rbrace] \<and> jsonParse c = Some v)
      \<and> parseStudentInsights jsonParse (prose @ lbrace # body @ rbrace # thanks)
          = parseStudentInsights jsonParse (lbrace # body @ [rbrace])
      \<and> parseTeacherInsights jsonParse (prose @ lbrace # body @ rbrace # thanks)
          = parseTeacherInsights jsonParse (lbrace # body @ [rbrace]))"
proof -
  have A: "extractJsonObject text = Some s \<longleftrightarrow>
      (\<exists>pre mid suf. text = pre @ lbrace # mid @ rbrace # suf
          \<and> lbrace \<notin> set pre \<and> rbrace \<notin> set suf \<and> s = lbrace # mid @ [rbrace])" for s
    using extract_Some_split extract_wrapped by blast
  have B: "extractJsonObject text = None \<longleftrightarrow>
      \<not> (\<exists>pre mid suf. text = pre @ lbrace # mid @ rbrace # suf
          \<and> lbrace \<notin> set pre \<and> rbrace \<notin> set suf)"
  proof
    assume "extractJsonObject text = None"
    then show "\<not> (\<exists>pre mid suf. text = pre @ lbrace # mid @ rbrace # suf
          \<and> lbrace \<notin> set pre \<and> rbrace \<notin> set suf)"
      using extract_wrapped by fastforce
  next
    assume n: "\<not> (\<exists>pre mid suf. text = pre @ lbrace # mid @ rbrace # suf
          \<and> lbrace \<notin> set pre \<and> rbrace \<notin> set suf)"
    show "extractJsonObject text = None"
    proof (cases "extractJsonObject text")
      case None then show ?thesis .
    next
      case (Some s)
      from extract_Some_split [OF Some] n show ?thesis by blast
    qed
  qed
  have C: "extractJsonObject text = None \<longrightarrow>
      parseStudentInsights jsonParse text = Fail [ascii ''No JSON object found in response'']
      \<and> parseTeacherInsights jsonParse text = Fail [ascii ''No JSON object found in response'']"
    by (simp add: parseStudentInsights_def parseTeacherInsights_def)
  have D: "lbrace \<notin> set text \<and> rbrace \<notin> set text \<longrightarrow> extractJsonObject text = None"
    by (simp add: extractJsonObject_def indexOf_notin)
  have E: "lbrace \<notin> set prose \<and> rbrace \<notin> set thanks
        \<and> jsonParse (lbrace # body @ [rbrace]) = Some v \<longrightarrow>
      (\<exists>c. extractJsonObject (prose @ lbrace # body @ rbrace # thanks) = Some c
          \<and> c = lbrace # body @ [rbrace] \<and> jsonParse c = Some v)
      \<and> parseStudentInsights jsonParse (prose @ lbrace # body @ rbrace # thanks)
          = parseStudentInsights jsonParse (lbrace # body @ [rbrace])
      \<and> parseTeacherInsights jsonParse (prose @ lbrace # body @ rbrace # thanks)
          = parseTeacherInsights jsonParse (lbrace # body @ [rbrace])"
  proof (intro impI, elim conjE)
    assume p: "lbrace \<notin> set prose" and t: "rbrace \<notin> set thanks"
      and j: "jsonParse (lbrace # body @ [rbrace]) = Some v"
    have e1: "extractJsonObject (prose @ lbrace # body @ rbrace # thanks)
                = Some (lbrace # body @ [rbrace])"
      using extract_wrapped [OF p t] .
    have e2: "extractJsonObject (lbrace # body @ [rbrace]) = Some (lbrace # body @ [rbrace])"
      using extract_wrapped [of "[]" "[]" body] by simp
    from e1 e2 have same: "extractJsonObject (prose @ lbrace # body @ rbrace # thanks)
        = extractJsonObject (lbrace # body @ [rbrace])" by simp
    show "(\<exists>c. extractJsonObject (prose @ lbrace # body @ rbrace # thanks) = Some c
          \<and> c = lbrace # body @ [rbrace] \<and> jsonParse c = Some v)
      \<and> parseStudentInsights jsonParse (prose @ lbrace # body @ rbrace # thanks)
          = parseStudentInsights jsonParse (lbrace # body @ [rbrace])
      \<and> parseTeacherInsights jsonParse (prose @ lbrace # body @ rbrace # thanks)
          = parseTeacherInsights jsonParse (lbrace # body @ [rbrace])"
      using e1 j parse_student_via_extract [OF same] parse_teacher_via_extract [OF same]
      by simp
  qed
  from A B C D E show ?thesis by blast
qed

lemma ascii_Cons [simp]: "ascii (c # cs) = of_char c # ascii cs"
  by (simp add: ascii_def)

lemma ascii_Nil [simp]: "ascii [] = []"
  by (simp add: ascii_def)

theorem extractJsonObject_first_to_last_witness:
  "extractJsonObject (ascii ''Here is the JSON:'' @ [10] @ ascii ''{}'' @ [10] @ ascii ''Thanks!'')
     = Some (ascii ''{}'')
   \<and> extractJsonObject (ascii ''I could not produce any JSON today.'') = None
   \<and> parseStudentInsights (\<lambda>c. if c = ascii ''{}'' then Some (JObj []) else None)
        (ascii ''I could not produce any JSON today.'')
       = Fail [ascii ''No JSON object found in response'']"
  using extractJsonObject_first_to_last
    [of "ascii ''I could not produce any JSON today.''" "[]"
        "\<lambda>c. if c = ascii ''{}'' then Some (JObj []) else None"
        "ascii ''Here is the JSON:'' @ [10]" "[10] @ ascii ''Thanks!''" "[]" "JObj []"]
  by (simp add: lbrace_def rbrace_def)

section \<open>Properties of the risk classification\<close>

lemma mathRound_of_int: "mathRound (of_int k) = of_int k"
  by (simp add: mathRound_def)

lemma roundHalfEven_of_int: "roundHalfEven (of_int m) = m"
  by (simp add: roundHalfEven_def)

text \<open>An integer of magnitude below \<open>2^53\<close> is a double.\<close>

lemma toDouble_of_int:
  assumes "\<bar>k\<bar> < 2 ^ 53"
  shows "toDouble (of_int k) = of_int k"
proof (cases "k = 0")
  case True
  then show ?thesis by (simp add: toDouble_def)
next
  case False
  define a :: real where "a = \<bar>of_int k\<bar>"
  have a1: "1 \<le> a" using False unfolding a_def by (simp add: abs_le_iff)
  have a2: "a < 2 ^ 53" using assms unfolding a_def
    by (metis of_int_abs of_int_less_numeral_power_cancel_iff)
  have "log 2 a < 53"
    using a1 a2 by (simp add: log_less_iff powr_realpow)
  then have l: "\<lfloor>log 2 a\<rfloor> \<le> 52" by (simp add: floor_less_iff)
  define e where "e = max (\<lfloor>log 2 a\<rfloor> - 52) (- 1074)"
  have e0: "e \<le> 0" unfolding e_def using l by simp
  define n where "n = nat (- e)"
  have p: "(2 :: real) powi e = 1 / 2 ^ n"
    using e0 unfolding n_def by (simp add: power_int_def field_simps)
  have q: "a / 2 powi e = of_int (\<bar>k\<bar> * 2 ^ n)"
    unfolding p a_def by simp
  have r: "roundHalfEven (a / 2 powi e) = \<bar>k\<bar> * 2 ^ n"
    unfolding q by (rule roundHalfEven_of_int)
  have "toDouble (of_int k) = sgn (of_int k) * of_int (roundHalfEven (a / 2 powi e)) * 2 powi e"
    using False unfolding toDouble_def a_def e_def Let_def by simp
  also have "\<dots> = sgn (of_int k) * of_int (\<bar>k\<bar> * 2 ^ n) * (1 / 2 ^ n)"
    by (subst r) (simp only: p)
  also have "\<dots> = sgn (of_int k) * \<bar>of_int k\<bar>" by simp
  also have "\<dots> = of_int k" by (simp add: sgn_mult_abs)
  finally show ?thesis .
qed

lemma toDouble_numeral:
  "numeral w < (9007199254740992 :: int) \<Longrightarrow> toDouble (numeral w) = numeral w"
  using toDouble_of_int [of "numeral w"] by simp

lemma average_single_70: "average [70] = 70"
  using mathRound_of_int [of 7000] by (simp add: average_def toDouble_numeral)

lemma average_single_72: "average [72] = 72"
  using mathRound_of_int [of 7200] by (simp add: average_def toDouble_numeral)

lemma average_90_70: "average [90, 70] = 80"
  using mathRound_of_int [of 8000] by (simp add: average_def toDouble_numeral)

text \<open>
  Claim C6. The risk level of an analysis is high when the average stored in its
  metrics is below 70, the participation at most 4, the completion rate below 70 or
  the trend declining; otherwise medium when that average is below 80, the
  participation at most 6 or the completion rate below 85; otherwise low. The
  participation and the completion rate read by the rule are those of the student,
  copied into the metrics. With the stored average 70, participation 5, completion
  rate 60 and a declining trend the risk is high.
\<close>

theorem analyzeStudent_riskLevel:
  "riskLevel (analyzeStudent s) =
     (if averageScore (metrics (analyzeStudent s)) < 70
         \<or> Student.participationScore s \<le> 4
         \<or> Student.assignmentCompletionRate s < 70
         \<or> performanceTrend s = Declining
      then High
      else if averageScore (metrics (analyzeStudent s)) < 80
         \<or> Student.participationScore s \<le> 6
         \<or> Student.assignmentCompletionRate s < 85
      then Medium
      else Low)
   \<and> riskLevel (analyzeStudent s)
       = determineRisk (metrics (analyzeStudent s)) (performanceTrend s)
   \<and> StudentMetrics.participationScore (metrics (analyzeStudent s))
       = Student.participationScore s
   \<and> StudentMetrics.assignmentCompletionRate (metrics (analyzeStudent s))
       = Student.assignmentCompletionRate s
   \<and> (averageScore m = 70 \<and> StudentMetrics.participationScore m = 5
        \<and> StudentMetrics.assignmentCompletionRate m = 60
      \<longrightarrow> determineRisk m Declining = High)
   \<and> (averageScore (metrics (analyzeStudent s)) = 70 \<and> Student.participationScore s = 5
        \<and> Student.assignmentCompletionRate s = 60 \<and> performanceTrend s = Declining
      \<longrightarrow> riskLevel (analyzeStudent s) = High)"
  by (simp add: analyzeStudent_def determineRisk_def Let_def)

theorem analyzeStudent_riskLevel_witness:
  "averageScore (metrics (analyzeStudent
     \<lparr> id_field = ascii ''S100'', Student.name = ascii ''Test Student'',
       email = ascii ''test@example.com'',
       grades = [\<lparr> subject = ascii ''Math'', score = 70 \<rparr>],
       Student.participationScore = 5, Student.assignmentCompletionRate = 60,
       Student.teacherNotes = ascii ''Needs confidence in class.'',
       performanceTrend = Declining, lastAssessmentDate = ascii ''2024-09-01'' \<rparr>)) = 70
   \<and> riskLevel (analyzeStudent
     \<lparr> id_field = ascii ''S100'', Student.name = ascii ''Test Student'',
       email = ascii ''test@example.com'',
       grades = [\<lparr> subject = ascii ''Math'', score = 70 \<rparr>],
       Student.participationScore = 5, Student.assignmentCompletionRate = 60,
       Student.teacherNotes = ascii ''Needs confidence in class.'',
       performanceTrend = Declining, lastAssessmentDate = ascii ''2024-09-01'' \<rparr>) = High
   \<and> determineRisk
        \<lparr> averageScore = 70, highestSubjects = [], lowestSubjects = [],
          StudentMetrics.participationScore = 5,
          StudentMetrics.assignmentCompletionRate = 60, needsAttention = True \<rparr>
        Declining = High"
proof -
  let ?s = "\<lparr> id_field = ascii ''S100'', Student.name = ascii ''Test Student'',
       email = ascii ''test@example.com'',
       grades = [\<lparr> subject = ascii ''Math'', score = 70 \<rparr>],
       Student.participationScore = 5, Student.assignmentCompletionRate = 60,
       Student.teacherNotes = ascii ''Needs confidence in class.'',
       performanceTrend = Declining, lastAssessmentDate = ascii ''2024-09-01'' \<rparr>"
  let ?m = "\<lparr> averageScore = 70, highestSubjects = [], lowestSubjects = [],
          StudentMetrics.participationScore = 5,
          StudentMetrics.assignmentCompletionRate = 60, needsAttention = True \<rparr>"
  have a: "averageScore (metrics (analyzeStudent ?s)) = 70"
    using average_single_70 by (simp add: analyzeStudent_def Let_def)
  have h: "Student.participationScore ?s = 5 \<and> Student.assignmentCompletionRate ?s = 60
      \<and> performanceTrend ?s = Declining" by simp
  have g: "averageScore ?m = 70 \<and> StudentMetrics.participationScore ?m = 5
        \<and> StudentMetrics.assignmentCompletionRate ?m = 60" by simp
  note T = analyzeStudent_riskLevel [of ?s ?m]
  have r: "riskLevel (analyzeStudent ?s) = High" using T a h by blast
  have d: "determineRisk ?m Declining = High" using T g by blast
  show ?thesis by (intro conjI a r d)
qed


section \<open>Properties of the rendering\<close>

lemma join_Cons: "join sep (x # xs) = x @ concat (map (\<lambda>l. sep @ l) xs)"
  by (induction xs arbitrary: x) auto

lemma renderTeacherMessage_text:
  "renderTeacherMessage i =
     classOverview i @ newline @ newline @ ascii ''Class strengths:''
     @ concat (map (\<lambda>s. newline @ bullet s) (TeacherInsights.strengths i))
     @ newline @ newline @ ascii ''Students needing attention:''
     @ (if TeacherInsights.attentionNeeded i = []
        then newline @ ascii ''- No students flagged for immediate attention.''
        else concat (map (\<lambda>e. newline @ attentionLine e) (TeacherInsights.attentionNeeded i)))
     @ newline @ newline @ ascii ''Next steps (next week):''
     @ concat (map (\<lambda>s. newline @ bullet s) (nextSteps i))"
  by (simp add: renderTeacherMessage_def join_Cons Let_def comp_def del: ascii_Cons ascii_Nil)

lemma renderStudentMessage_text:
  "renderStudentMessage i =
     positiveObservation i @ newline @ newline @ ascii ''Strengths:''
     @ concat (map (\<lambda>s. newline @ bullet s) (StudentInsights.strengths i))
     @ newline @ newline @ ascii ''Focus areas:''
     @ concat (map (\<lambda>s. newline @ bullet s) (StudentInsights.improvementAreas i))
     @ newline @ newline @ ascii ''Try this:''
     @ concat (map (\<lambda>s. newline @ bullet s) (strategies i))
     @ newline @ newline @ ascii ''Next step goal: '' @ nextStepGoal i
     @ newline @ newline @ encouragement i"
  by (simp add: renderStudentMessage_def join_Cons comp_def del: ascii_Cons ascii_Nil)

lemma newline_nonempty: "newline \<noteq> []"
  by (simp add: newline_def)

text \<open>
  Claim C10. The teacher message is never empty. It is the class overview, a blank
  line, the heading \<open>Class strengths:\<close> with one bullet line for each strength, a
  blank line, the heading \<open>Students needing attention:\<close> with its lines, a blank
  line, and the heading \<open>Next steps (next week):\<close> with one bullet line for each
  step, in this order. With no student to attend to, the attention section is kept
  and holds the one line \<open>- No students flagged for immediate attention.\<close>.
\<close>

theorem renderTeacherMessage_sections:
  "renderTeacherMessage i \<noteq> []
   \<and> renderTeacherMessage i =
       classOverview i @ newline @ newline @ ascii ''Class strengths:''
       @ concat (map (\<lambda>s. newline @ ascii ''- '' @ s) (TeacherInsights.strengths i))
       @ newline @ newline @ ascii ''Students needing attention:''
       @ (if TeacherInsights.attentionNeeded i = []
          then newline @ ascii ''- No students flagged for immediate attention.''
          else concat (map (\<lambda>e. newline @ ascii ''- '' @ AttentionEntry.name e
                                   @ ascii '': '' @ reason e)
                         (TeacherInsights.attentionNeeded i)))
       @ newline @ newline @ ascii ''Next steps (next week):''
       @ concat (map (\<lambda>s. newline @ ascii ''- '' @ s) (nextSteps i))
   \<and> (TeacherInsights.attentionNeeded i = [] \<longrightarrow>
        renderTeacherMessage i =
          classOverview i @ newline @ newline @ ascii ''Class strengths:''
          @ concat (map (\<lambda>s. newline @ ascii ''- '' @ s) (TeacherInsights.strengths i))
          @ newline @ newline @ ascii ''Students needing attention:''
          @ newline @ ascii ''- No students flagged for immediate attention.''
          @ newline @ newline @ ascii ''Next steps (next week):''
          @ concat (map (\<lambda>s. newline @ ascii ''- '' @ s) (nextSteps i)))"
proof -
  have t: "renderTeacherMessage i =
       classOverview i @ newline @ newline @ ascii ''Class strengths:''
       @ concat (map (\<lambda>s. newline @ ascii ''- '' @ s) (TeacherInsights.strengths i))
       @ newline @ newline @ ascii ''Students needing attention:''
       @ (if TeacherInsights.attentionNeeded i = []
          then newline @ ascii ''- No students flagged for immediate attention.''
          else concat (map (\<lambda>e. newline @ ascii ''- '' @ AttentionEntry.name e
                                   @ ascii '': '' @ reason e)
                         (TeacherInsights.attentionNeeded i)))
       @ newline @ newline @ ascii ''Next steps (next week):''
       @ concat (map (\<lambda>s. newline @ ascii ''- '' @ s) (nextSteps i))"
    unfolding renderTeacherMessage_text bullet_def attentionLine_def by simp
  have n: "renderTeacherMessage i \<noteq> []"
    unfolding renderTeacherMessage_text using newline_nonempty by simp
  from t n show ?thesis by simp
qed

theorem renderTeacherMessage_sections_witness:
  "renderTeacherMessage
     \<lparr> classOverview = ascii ''Steady.'', TeacherInsights.strengths = [ascii ''Effort''],
       TeacherInsights.attentionNeeded = [], nextSteps = [ascii ''Review'', ascii ''Pairs''] \<rparr>
   = ascii ''Steady.'' @ [10, 10] @ ascii ''Class strengths:'' @ [10] @ ascii ''- Effort''
     @ [10, 10] @ ascii ''Students needing attention:'' @ [10]
     @ ascii ''- No students flagged for immediate attention.''
     @ [10, 10] @ ascii ''Next steps (next week):'' @ [10] @ ascii ''- Review''
     @ [10] @ ascii ''- Pairs''"
  using renderTeacherMessage_sections
    [of "\<lparr> classOverview = ascii ''Steady.'', TeacherInsights.strengths = [ascii ''Effort''],
       TeacherInsights.attentionNeeded = [], nextSteps = [ascii ''Review'', ascii ''Pairs''] \<rparr>"]
  by (simp add: newline_def)

section \<open>Properties of the pipeline\<close>

lemma renderStudentMessage_nonempty: "renderStudentMessage i \<noteq> []"
  unfolding renderStudentMessage_text using newline_nonempty by simp

lemma isOk_cases: "isOk r \<longleftrightarrow> (\<exists>v. r = Ok v)"
  by (cases r) auto

text \<open>
  Claim C9, against the code. The provider is called inside the \<open>try\<close> block
  that also parses, falls back and renders. When the call throws, the block is left
  at once: the step ends as \<open>insights_failed\<close> with the error, no fallback is
  built and no message is rendered, for any analysis and any preferences. Only when
  the provider returns a text is a message produced: then it is the full rendering of
  the validated insights, or of the fallback when the text is rejected, and the step
  ends as \<open>sent\<close> unless sending throws.
\<close>

theorem processStudent_provider_throw:
  "processStudent jsonParse (Threw e) sendEmail analysis rules = InsightsFailed e
   \<and> (\<forall>outcome. processStudent jsonParse (Threw e) sendEmail analysis rules \<noteq> Sent outcome)
   \<and> (sendEmail (message (studentOutcome jsonParse raw analysis rules)) = Returned path \<longrightarrow>
        processStudent jsonParse (Returned raw) sendEmail analysis rules
          = Sent (studentOutcome jsonParse raw analysis rules))
   \<and> (sendEmail (message (studentOutcome jsonParse raw analysis rules)) = Threw e' \<longrightarrow>
        processStudent jsonParse (Returned raw) sendEmail analysis rules = InsightsFailed e')
   \<and> message (studentOutcome jsonParse raw analysis rules)
       = positiveObservation (insights (studentOutcome jsonParse raw analysis rules))
         @ newline @ newline @ ascii ''Strengths:''
         @ concat (map (\<lambda>s. newline @ ascii ''- '' @ s)
             (StudentInsights.strengths (insights (studentOutcome jsonParse raw analysis rules))))
         @ newline @ newline @ ascii ''Focus areas:''
         @ concat (map (\<lambda>s. newline @ ascii ''- '' @ s)
             (StudentInsights.improvementAreas
                (insights (studentOutcome jsonParse raw analysis rules))))
         @ newline @ newline @ ascii ''Try this:''
         @ concat (map (\<lambda>s. newline @ ascii ''- '' @ s)
             (strategies (insights (studentOutcome jsonParse raw analysis rules))))
         @ newline @ newline @ ascii ''Next step goal: ''
         @ nextStepGoal (insights (studentOutcome jsonParse raw analysis rules))
         @ newline @ newline
         @ encouragement (insights (studentOutcome jsonParse raw analysis rules))
   \<and> (usedFallback (studentOutcome jsonParse raw analysis rules)
        \<longleftrightarrow> \<not> isOk (parseStudentInsights jsonParse raw))
   \<and> (usedFallback (studentOutcome jsonParse raw analysis rules) \<longrightarrow>
        insights (studentOutcome jsonParse raw analysis rules)
          = buildFallbackStudentInsights analysis rules)
   \<and> (\<not> usedFallback (studentOutcome jsonParse raw analysis rules) \<longrightarrow>
        parseStudentInsights jsonParse raw
          = Ok (insights (studentOutcome jsonParse raw analysis rules)))"
proof -
  have a: "processStudent jsonParse (Threw e) sendEmail analysis rules = InsightsFailed e"
    by (simp add: processStudent_def)
  have b: "\<forall>outcome. processStudent jsonParse (Threw e) sendEmail analysis rules \<noteq> Sent outcome"
    by (simp add: processStudent_def)
  have c: "sendEmail (message (studentOutcome jsonParse raw analysis rules)) = Returned path \<longrightarrow>
        processStudent jsonParse (Returned raw) sendEmail analysis rules
          = Sent (studentOutcome jsonParse raw analysis rules)"
    by (simp add: processStudent_def Let_def)
  have d: "sendEmail (message (studentOutcome jsonParse raw analysis rules)) = Threw e' \<longrightarrow>
        processStudent jsonParse (Returned raw) sendEmail analysis rules = InsightsFailed e'"
    by (simp add: processStudent_def Let_def)
  have m: "message (studentOutcome jsonParse raw analysis rules)
      = renderStudentMessage (insights (studentOutcome jsonParse raw analysis rules))"
    by (simp add: studentOutcome_def Let_def)
  have f: "message (studentOutcome jsonParse raw analysis rules)
       = positiveObservation (insights (studentOutcome jsonParse raw analysis rules))
         @ newline @ newline @ ascii ''Strengths:''
         @ concat (map (\<lambda>s. newline @ ascii ''- '' @ s)
             (StudentInsights.strengths (insights (studentOutcome jsonParse raw analysis rules))))
         @ newline @ newline @ ascii ''Focus areas:''
         @ concat (map (\<lambda>s. newline @ ascii ''- '' @ s)
             (StudentInsights.improvementAreas
                (insights (studentOutcome jsonParse raw analysis rules))))
         @ newline @ newline @ ascii ''Try this:''
         @ concat (map (\<lambda>s. newline @ ascii ''- '' @ s)
             (strategies (insights (studentOutcome jsonParse raw analysis rules))))
         @ newline @ newline @ ascii ''Next step goal: ''
         @ nextStepGoal (insights (studentOutcome jsonParse raw analysis rules))
         @ newline @ newline
         @ encouragement (insights (studentOutcome jsonParse raw analysis rules))"
    unfolding m renderStudentMessage_text bullet_def by simp
  have g: "usedFallback (studentOutcome jsonParse raw analysis rules)
        \<longleftrightarrow> \<not> isOk (parseStudentInsights jsonParse raw)"
    by (simp add: studentOutcome_def Let_def)
  have h: "usedFallback (studentOutcome jsonParse raw analysis rules) \<longrightarrow>
        insights (studentOutcome jsonParse raw analysis rules)
          = buildFallbackStudentInsights analysis rules"
    by (simp add: studentOutcome_def Let_def)
  have i: "\<not> usedFallback (studentOutcome jsonParse raw analysis rules) \<longrightarrow>
        parseStudentInsights jsonParse raw
          = Ok (insights (studentOutcome jsonParse raw analysis rules))"
    by (cases "parseStudentInsights jsonParse raw") (simp_all add: studentOutcome_def Let_def)
  show ?thesis by (intro conjI a b c d f g h i)
qed

theorem processStudent_provider_throw_witness:
  "processStudent (\<lambda>c. None) (Threw (ascii ''Request timed out.'')) (\<lambda>m. Returned None)
     (analyzeStudent testStudent) None
   = InsightsFailed (ascii ''Request timed out.'')
   \<and> processStudent (\<lambda>c. None) (Returned (ascii ''I cannot help with that request.''))
       (\<lambda>m. Returned None) (analyzeStudent testStudent) None
     = Sent (studentOutcome (\<lambda>c. None) (ascii ''I cannot help with that request.'')
              (analyzeStudent testStudent) None)"
proof -
  note T = processStudent_provider_throw
    [of "\<lambda>c. None" "ascii ''Request timed out.''" "\<lambda>m. Returned None"
        "analyzeStudent testStudent" None "ascii ''I cannot help with that request.''" None]
  have a: "processStudent (\<lambda>c. None) (Threw (ascii ''Request timed out.'')) (\<lambda>m. Returned None)
     (analyzeStudent testStudent) None
   = InsightsFailed (ascii ''Request timed out.'')"
    using T [THEN conjunct1] .
  have s: "(\<lambda>m :: jsstring. (Returned None :: jsstring option attempt))
      (message (studentOutcome (\<lambda>c. None) (ascii ''I cannot help with that request.'')
              (analyzeStudent testStudent) None)) = Returned None" by simp
  have b: "processStudent (\<lambda>c. None) (Returned (ascii ''I cannot help with that request.''))
       (\<lambda>m. Returned None) (analyzeStudent testStudent) None
     = Sent (studentOutcome (\<lambda>c. None) (ascii ''I cannot help with that request.'')
              (analyzeStudent testStudent) None)"
    using T [THEN conjunct2, THEN conjunct2, THEN conjunct1] s by blast
  show ?thesis by (intro conjI a b)
qed

text \<open>
  Claim C4. The fallback builders are functions of the analysis (or the class summary)
  and the optional preferences alone: equal arguments give equal results, and the raw
  provider text is not among the arguments. In the pipeline, whenever two provider
  answers are both rejected, whatever they contain and whatever the parser makes of
  them, the insights and the message produced for one analysis and one set of
  preferences are the same, namely the fallback of that analysis.
\<close>

theorem fallback_independent_of_provider:
  "(analysis = analysis' \<and> prefs = prefs' \<longrightarrow>
      buildFallbackStudentInsights analysis prefs
        = buildFallbackStudentInsights analysis' prefs')
   \<and> (summary = summary' \<and> prefs = prefs' \<longrightarrow>
      buildFallbackTeacherInsights summary prefs
        = buildFallbackTeacherInsights summary' prefs')
   \<and> (usedFallback (studentOutcome jp1 raw1 analysis prefs)
        \<and> usedFallback (studentOutcome jp2 raw2 analysis prefs) \<longrightarrow>
      insights (studentOutcome jp1 raw1 analysis prefs)
        = buildFallbackStudentInsights analysis prefs
      \<and> insights (studentOutcome jp2 raw2 analysis prefs)
        = insights (studentOutcome jp1 raw1 analysis prefs)
      \<and> message (studentOutcome jp2 raw2 analysis prefs)
        = message (studentOutcome jp1 raw1 analysis prefs))
   \<and> (teacherUsedFallback (teacherOutcome jp1 raw1 summary prefs)
        \<and> teacherUsedFallback (teacherOutcome jp2 raw2 summary prefs) \<longrightarrow>
      teacherInsights (teacherOutcome jp1 raw1 summary prefs)
        = buildFallbackTeacherInsights summary prefs
      \<and> teacherInsights (teacherOutcome jp2 raw2 summary prefs)
        = teacherInsights (teacherOutcome jp1 raw1 summary prefs)
      \<and> teacherMessage (teacherOutcome jp2 raw2 summary prefs)
        = teacherMessage (teacherOutcome jp1 raw1 summary prefs))"
  by (simp add: studentOutcome_def teacherOutcome_def Let_def)

theorem fallback_independent_of_provider_witness:
  "usedFallback (studentOutcome (\<lambda>c. None) (ascii ''No data.'') (analyzeStudent testStudent) None)
   \<and> usedFallback (studentOutcome (\<lambda>c. None) (ascii ''{ strengths: none }'')
                      (analyzeStudent testStudent) None)
   \<and> message (studentOutcome (\<lambda>c. None) (ascii ''{ strengths: none }'')
                 (analyzeStudent testStudent) None)
       = message (studentOutcome (\<lambda>c. None) (ascii ''No data.'')
                 (analyzeStudent testStudent) None)"
proof -
  have f1: "usedFallback (studentOutcome (\<lambda>c. None) (ascii ''No data.'')
                            (analyzeStudent testStudent) None)"
    by (simp add: studentOutcome_def parseStudentInsights_def Let_def split: option.split)
  have f2: "usedFallback (studentOutcome (\<lambda>c. None) (ascii ''{ strengths: none }'')
                            (analyzeStudent testStudent) None)"
    by (simp add: studentOutcome_def parseStudentInsights_def Let_def split: option.split)
  from f1 f2 fallback_independent_of_provider
    [of "analyzeStudent testStudent" "analyzeStudent testStudent" None None
        undefined undefined "\<lambda>c. None" "ascii ''No data.''"
        "\<lambda>c. None" "ascii ''{ strengths: none }''"]
  show ?thesis by blast
qed

section \<open>Properties of the student fallback\<close>

lemma pushWhileBelow_extends: "\<exists>rest. pushWhileBelow n acc xs = acc @ rest \<and> set rest \<subseteq> set xs"
proof (induction xs arbitrary: acc)
  case Nil
  then show ?case by simp
next
  case (Cons x xs)
  show ?case
  proof (cases "length acc < n")
    case True
    from Cons [of "acc @ [x]"] obtain rest where
      "pushWhileBelow n (acc @ [x]) xs = (acc @ [x]) @ rest" "set rest \<subseteq> set xs" by blast
    with True have "pushWhileBelow n acc (x # xs) = acc @ (x # rest) \<and> set (x # rest) \<subseteq> set (x # xs)"
      by auto
    then show ?thesis by blast
  next
    case False
    from Cons [of acc] obtain rest where
      "pushWhileBelow n acc xs = acc @ rest" "set rest \<subseteq> set xs" by blast
    with False have "pushWhileBelow n acc (x # xs) = acc @ rest \<and> set rest \<subseteq> set (x # xs)"
      by auto
    then show ?thesis by blast
  qed
qed

lemma pushWhileBelow_length:
  "length (pushWhileBelow n acc xs) \<le> max n (length acc)"
proof (induction xs arbitrary: acc)
  case Nil
  then show ?case by simp
next
  case (Cons x xs)
  show ?case
  proof (cases "length acc < n")
    case True
    from Cons [of "acc @ [x]"] True show ?thesis by (simp add: max_def split: if_splits)
  next
    case False
    from Cons [of acc] False show ?thesis by simp
  qed
qed

lemma padStrategies_extends:
  "\<exists>rest. padStrategies acc = acc @ rest \<and> set rest \<subseteq> {genericStrategy}"
proof (induction acc rule: padStrategies.induct)
  case (1 acc)
  show ?case
  proof (cases "length acc < 2")
    case True
    from 1 [OF True] obtain rest where
      r: "padStrategies (acc @ [genericStrategy]) = (acc @ [genericStrategy]) @ rest"
         "set rest \<subseteq> {genericStrategy}" by blast
    have "padStrategies acc = padStrategies (acc @ [genericStrategy])"
      using True by (subst padStrategies.simps) simp
    with r have "padStrategies acc = acc @ (genericStrategy # rest)
        \<and> set (genericStrategy # rest) \<subseteq> {genericStrategy}" by simp
    then show ?thesis by (rule exI)
  next
    case False
    then have "padStrategies acc = acc" by (subst padStrategies.simps) simp
    then have "padStrategies acc = acc @ [] \<and> set ([] :: jsstring list) \<subseteq> {genericStrategy}"
      by simp
    then show ?thesis by (rule exI)
  qed
qed

lemma padStrategies_length: "length (padStrategies acc) = max 2 (length acc)"
proof (induction acc rule: padStrategies.induct)
  case (1 acc)
  show ?case
  proof (cases "length acc < 2")
    case True
    have "padStrategies acc = padStrategies (acc @ [genericStrategy])"
      using True by (subst padStrategies.simps) simp
    with 1 [OF True] True show ?thesis by (simp add: max_def)
  next
    case False
    then have "padStrategies acc = acc" by (subst padStrategies.simps) simp
    with False show ?thesis by (simp add: max_def)
  qed
qed


lemma slice_0_3: "slice xs 0 3 = take 3 xs"
  using slice_0_take [of xs 3] by simp

lemma slice_0_2: "slice xs 0 2 = take 2 xs"
  using slice_0_take [of xs 2] by simp

lemma slice_0_4: "slice xs 0 4 = take 4 xs"
  using slice_0_take [of xs 4] by simp

lemma fallback_strategies:
  "strategies (buildFallbackStudentInsights a p) =
     take 3 (padStrategies (pushWhileBelow 3 (strategyLadder a) (preferredNonBlank p)))"
  by (simp add: buildFallbackStudentInsights_def Let_def slice_0_3)

lemma fallback_strategies_extend:
  "\<exists>rest. padStrategies (pushWhileBelow 3 (strategyLadder a) (preferredNonBlank p))
            = strategyLadder a @ rest
          \<and> set rest \<subseteq> set (preferredNonBlank p) \<union> {genericStrategy}"
proof -
  obtain r1 where r1: "pushWhileBelow 3 (strategyLadder a) (preferredNonBlank p)
      = strategyLadder a @ r1" "set r1 \<subseteq> set (preferredNonBlank p)"
    using pushWhileBelow_extends by blast
  obtain r2 where r2: "padStrategies (strategyLadder a @ r1) = (strategyLadder a @ r1) @ r2"
      "set r2 \<subseteq> {genericStrategy}"
    using padStrategies_extends by blast
  from r1 r2 have "padStrategies (pushWhileBelow 3 (strategyLadder a) (preferredNonBlank p))
            = strategyLadder a @ (r1 @ r2)
          \<and> set (r1 @ r2) \<subseteq> set (preferredNonBlank p) \<union> {genericStrategy}"
    by auto
  then show ?thesis by (rule exI)
qed

lemma studyRoutineTip_distinct:
  "studyRoutineTip \<noteq> deadlineTip" "studyRoutineTip \<noteq> engagementTip"
  "studyRoutineTip \<noteq> genericStrategy" "studyRoutineTip \<noteq> subjectTip l"
  by (simp_all add: studyRoutineTip_def deadlineTip_def engagementTip_def genericStrategy_def
        subjectTip_def)

lemma studyRoutineTip_ladder:
  "studyRoutineTip \<in> set (strategyLadder a) \<longleftrightarrow> averageScore (metrics a) < 75"
  using studyRoutineTip_distinct by (auto simp: strategyLadder_def)

lemma studyRoutineTip_early:
  "averageScore (metrics a) < 75 \<Longrightarrow> studyRoutineTip \<in> set (take 3 (strategyLadder a))"
  by (simp add: strategyLadder_def)

lemma studyRoutineTip_kept:
  assumes "averageScore (metrics a) < 75"
  shows "studyRoutineTip \<in> set (strategies (buildFallbackStudentInsights a p))"
proof -
  obtain rest where r: "padStrategies (pushWhileBelow 3 (strategyLadder a) (preferredNonBlank p))
            = strategyLadder a @ rest"
    using fallback_strategies_extend by blast
  have "set (take 3 (strategyLadder a)) \<subseteq> set (take 3 (strategyLadder a @ rest))"
    by simp
  with studyRoutineTip_early [OF assms] show ?thesis
    unfolding fallback_strategies r by blast
qed

lemma studyRoutineTip_absent:
  assumes "\<not> averageScore (metrics a) < 75" "studyRoutineTip \<notin> set (preferredNonBlank p)"
  shows "studyRoutineTip \<notin> set (strategies (buildFallbackStudentInsights a p))"
proof -
  obtain rest where r: "padStrategies (pushWhileBelow 3 (strategyLadder a) (preferredNonBlank p))
            = strategyLadder a @ rest"
      "set rest \<subseteq> set (preferredNonBlank p) \<union> {genericStrategy}"
    using fallback_strategies_extend by blast
  have l: "studyRoutineTip \<notin> set (strategyLadder a)"
    using assms(1) studyRoutineTip_ladder by blast
  have "studyRoutineTip \<notin> set rest"
    using r(2) assms(2) studyRoutineTip_distinct(3) by blast
  with l have "studyRoutineTip \<notin> set (strategyLadder a @ rest)" by simp
  then have "studyRoutineTip \<notin> set (take 3 (strategyLadder a @ rest))"
    using set_take_subset by fastforce
  then show ?thesis unfolding fallback_strategies r(1) .
qed


lemma analyzeStudent_average:
  "averageScore (metrics (analyzeStudent s)) = average (map score (grades s))"
  by (simp add: analyzeStudent_def Let_def)

lemma average_testStudent: "averageScore (metrics (analyzeStudent testStudent)) = 80"
  using average_90_70 by (simp add: analyzeStudent_average testStudent_def)

lemma improvement_average_threshold:
  "ascii ''Overall grade average needs improvement''
     \<in> set (StudentAnalysis.improvementAreas (analyzeStudent s))
   \<longleftrightarrow> averageScore (metrics (analyzeStudent s)) < 75"
  by (simp add: analyzeStudent_def Let_def)

text \<open>
  Claim C3, as the code has it. The study-routine tip enters the strategy ladder
  exactly when the average is below 75, the threshold that also adds the
  average-related improvement area; 70 plays no part. When the average is below 75 the
  tip is among the strategies returned, in particular for every average from 70 up to
  75. When the average is 75 or more the tip is not among the strategies returned,
  unless the teacher's preferred strategies contain that very sentence.
\<close>

theorem studyRoutineTip_threshold:
  "(studyRoutineTip \<in> set (strategyLadder a) \<longleftrightarrow> averageScore (metrics a) < 75)
   \<and> (averageScore (metrics a) < 75 \<longrightarrow>
        studyRoutineTip \<in> set (strategies (buildFallbackStudentInsights a p)))
   \<and> (70 \<le> averageScore (metrics a) \<and> averageScore (metrics a) < 75 \<longrightarrow>
        studyRoutineTip \<in> set (strategies (buildFallbackStudentInsights a p)))
   \<and> (\<not> averageScore (metrics a) < 75 \<and> studyRoutineTip \<notin> set (preferredNonBlank p) \<longrightarrow>
        studyRoutineTip \<notin> set (strategies (buildFallbackStudentInsights a p)))
   \<and> (ascii ''Overall grade average needs improvement''
          \<in> set (StudentAnalysis.improvementAreas (analyzeStudent s))
        \<longleftrightarrow> averageScore (metrics (analyzeStudent s)) < 75)"
  using studyRoutineTip_ladder [of a] studyRoutineTip_kept [of a p]
    studyRoutineTip_absent [of a p] improvement_average_threshold [of s]
  by blast

theorem studyRoutineTip_threshold_witness:
  "\<not> averageScore (metrics (analyzeStudent testStudent)) < 75
   \<and> studyRoutineTip \<notin> set (preferredNonBlank None)
   \<and> studyRoutineTip
        \<notin> set (strategies (buildFallbackStudentInsights (analyzeStudent testStudent) None))"
proof -
  have h1: "\<not> averageScore (metrics (analyzeStudent testStudent)) < 75"
    by (simp add: average_testStudent)
  have h2: "studyRoutineTip \<notin> set (preferredNonBlank None)"
    by (simp add: preferredNonBlank_def)
  from h1 h2 studyRoutineTip_threshold [of "analyzeStudent testStudent" None testStudent]
  show ?thesis by blast
qed

text \<open>
  A student whose only grade is 72 has the average 72, between 70 and 75, and the
  fallback strategies contain the study-routine tip.
\<close>

theorem studyRoutineTip_at_72_counterexample:
  "70 \<le> averageScore (metrics (analyzeStudent
             (testStudent\<lparr> grades := [\<lparr> subject = ascii ''Math'', score = 72 \<rparr>] \<rparr>)))
   \<and> averageScore (metrics (analyzeStudent
             (testStudent\<lparr> grades := [\<lparr> subject = ascii ''Math'', score = 72 \<rparr>] \<rparr>))) < 75
   \<and> studyRoutineTip
        \<in> set (strategies (buildFallbackStudentInsights
             (analyzeStudent
                (testStudent\<lparr> grades := [\<lparr> subject = ascii ''Math'', score = 72 \<rparr>] \<rparr>))
             None))"
proof -
  have a: "averageScore (metrics (analyzeStudent
             (testStudent\<lparr> grades := [\<lparr> subject = ascii ''Math'', score = 72 \<rparr>] \<rparr>))) = 72"
    using average_single_72 by (simp add: analyzeStudent_average)
  then have lt: "averageScore (metrics (analyzeStudent
             (testStudent\<lparr> grades := [\<lparr> subject = ascii ''Math'', score = 72 \<rparr>] \<rparr>))) < 75"
    by simp
  from a studyRoutineTip_kept [OF lt, of None] show ?thesis by simp
qed

section \<open>Properties of the validation of student insights\<close>

lemma extract_nonempty: "extractJsonObject raw = Some c \<Longrightarrow> c \<noteq> []"
  using extract_Some_split by blast

text \<open>
  Claim C1, at the student parser. When the candidate parses to an object and one of
  the three list fields \<open>strengths\<close>, \<open>improvementAreas\<close> and \<open>strategies\<close> is
  invalid, \<open>parseStudentInsights\<close> returns before any error is collected: the result
  is the single error \<open>Invalid student insights payload\<close>, however many fields are
  invalid, and no field is named in it.
\<close>

theorem parseStudentInsights_single_error:
  "extractJsonObject raw = Some c \<and> jsonParse c = Some parsed \<and> isObjectType parsed
   \<and> (\<not> isOk (normalizeStringArray (getProp parsed (ascii ''strengths'')) 1 3
                  (ascii ''strengths''))
      \<or> \<not> isOk (normalizeStringArray (getProp parsed (ascii ''improvementAreas'')) 1 2
                  (ascii ''improvementAreas''))
      \<or> \<not> isOk (normalizeStringArray (getProp parsed (ascii ''strategies'')) 2 3
                  (ascii ''strategies'')))
   \<longrightarrow> parseStudentInsights jsonParse raw = Fail [ascii ''Invalid student insights payload'']"
proof (intro impI, elim conjE)
  assume e: "extractJsonObject raw = Some c" and j: "jsonParse c = Some parsed"
    and o: "isObjectType parsed"
    and bad: "\<not> isOk (normalizeStringArray (getProp parsed (ascii ''strengths'')) 1 3
                  (ascii ''strengths''))
      \<or> \<not> isOk (normalizeStringArray (getProp parsed (ascii ''improvementAreas'')) 1 2
                  (ascii ''improvementAreas''))
      \<or> \<not> isOk (normalizeStringArray (getProp parsed (ascii ''strategies'')) 2 3
                  (ascii ''strategies''))"
  have ne: "c \<noteq> []" using extract_nonempty [OF e] .
  show "parseStudentInsights jsonParse raw = Fail [ascii ''Invalid student insights payload'']"
    unfolding parseStudentInsights_def using e j o ne bad
    by (simp add: Let_def del: ascii_Cons ascii_Nil)
qed

theorem parseStudentInsights_single_error_witness:
  "parseStudentInsights
     (\<lambda>c. if c = ascii ''{ '' @ [34] @ ascii ''positiveObservation'' @ [34] @ ascii '': ''
                    @ [34] @ ascii ''Good job'' @ [34] @ ascii '' }''
          then Some (JObj [(ascii ''positiveObservation'', JStr (ascii ''Good job''))])
          else None)
     (ascii ''{ '' @ [34] @ ascii ''positiveObservation'' @ [34] @ ascii '': ''
        @ [34] @ ascii ''Good job'' @ [34] @ ascii '' }'')
   = Fail [ascii ''Invalid student insights payload'']
   \<and> safeString (getProp (JObj [(ascii ''positiveObservation'', JStr (ascii ''Good job''))])
                   (ascii ''nextStepGoal'')) 200 = None
   \<and> safeString (getProp (JObj [(ascii ''positiveObservation'', JStr (ascii ''Good job''))])
                   (ascii ''encouragement'')) 200 = None
   \<and> \<not> isOk (normalizeStringArray
               (getProp (JObj [(ascii ''positiveObservation'', JStr (ascii ''Good job''))])
                  (ascii ''strategies'')) 2 3 (ascii ''strategies''))"
proof -
  let ?raw = "ascii ''{ '' @ [34] @ ascii ''positiveObservation'' @ [34] @ ascii '': ''
        @ [34] @ ascii ''Good job'' @ [34] @ ascii '' }''"
  let ?obj = "JObj [(ascii ''positiveObservation'', JStr (ascii ''Good job''))]"
  have e: "extractJsonObject ?raw = Some ?raw"
    by (simp add: extractJsonObject_def lbrace_def rbrace_def slice_def Let_def)
  have s: "getProp ?obj (ascii ''strengths'') = None" by simp
  have g: "getProp ?obj (ascii ''nextStepGoal'') = None" by simp
  have n: "getProp ?obj (ascii ''encouragement'') = None" by simp
  have t: "getProp ?obj (ascii ''strategies'') = None" by simp
  have b: "\<not> isOk (normalizeStringArray (getProp ?obj (ascii ''strengths'')) 1 3
                  (ascii ''strengths''))"
    unfolding s by (simp add: normalizeStringArray_def)
  have b2: "\<not> isOk (normalizeStringArray (getProp ?obj (ascii ''strategies'')) 2 3
                  (ascii ''strategies''))"
    unfolding t by (simp add: normalizeStringArray_def)
  have r: "parseStudentInsights (\<lambda>c. if c = ?raw then Some ?obj else None) ?raw
      = Fail [ascii ''Invalid student insights payload'']"
    using parseStudentInsights_single_error
      [of ?raw ?raw "\<lambda>c. if c = ?raw then Some ?obj else None" ?obj] e b
    by simp
  show ?thesis
    using r b2 unfolding g n by (simp add: safeString_def)
qed

section \<open>Properties of the student validator\<close>

lemma fail_shape:
  assumes "(case pt of None \<Rightarrow> Fail E | Some t \<Rightarrow> if length E > 0 then Fail E else Ok (R t)) = Fail es"
    and "pt = None \<Longrightarrow> E \<noteq> []"
  shows "es \<noteq> []"
  using assms by (cases pt) (auto split: if_splits)

lemma validateStudent_Fail_nonempty:
  assumes "validateStudent dp v i = Fail es"
  shows "es \<noteq> []"
proof (cases "isRecord v")
  case False
  with assms show ?thesis by (auto simp add: validateStudent_def simp del: ascii_Cons ascii_Nil)
next
  case True
  have s: "(if \<not> isRecord v then a else b) = b" for a b :: "Student ValidationResult"
    using True by simp
  show ?thesis
    apply (rule fail_shape)
     apply (rule assms [unfolded validateStudent_def Let_def split_def s])
    apply (simp del: ascii_Cons ascii_Nil)
    done
qed


lemma validateEach_eq:
  "validateEach dp xs k =
     (map resultValue (filter isOk (map (\<lambda>(i, v). validateStudent dp v i) (enumerate k xs))),
      concat (map (\<lambda>(i, v). contributedErrors dp i v) (enumerate k xs)))"
  by (induction xs arbitrary: k)
     (auto simp: contributedErrors_def split: ValidationResult.splits prod.splits)

lemma contributedErrors_empty_iff:
  "contributedErrors dp i v = [] \<longleftrightarrow> isOk (validateStudent dp v i)"
  using validateStudent_Fail_nonempty [of dp v i]
  by (cases "validateStudent dp v i") (auto simp: contributedErrors_def)

lemma contributedErrors_prefixed:
  "e \<in> set (contributedErrors dp i v) \<Longrightarrow>
     \<exists>msg. e = ascii ''students['' @ natToString i @ ascii '']: '' @ msg"
  by (cases "validateStudent dp v i") (auto simp: contributedErrors_def prefixError_def)

lemma filter_isOk_count:
  "length (filter isOk (map f ps)) + length (filter (\<lambda>p. \<not> isOk (f p)) ps) = length ps"
  by (induction ps) auto

text \<open>
  Claim C7. For a value that is not an array, \<open>validateStudents\<close> returns no valid
  student and the one error \<open>students.json must be an array of student objects\<close>.
  For an array, the valid students are the results of the elements that validate, in
  order, and the errors are the contributions of the elements, in order. An element
  that validates contributes no error; an element that does not contributes at least
  one error, and each of its errors starts with \<open>students[i]: \<close> for its index
  \<open>i\<close>. So the number of valid students and the number of elements contributing an
  error add up to the length of the array.
\<close>

theorem validateStudents_partition:
  "(\<not> (\<exists>items. data = JArr items) \<longrightarrow>
      valid (validateStudents dp data) = []
      \<and> errors (validateStudents dp data)
          = [ascii ''students.json must be an array of student objects''])
   \<and> valid (validateStudents dp (JArr xs))
       = map resultValue
           (filter isOk (map (\<lambda>(i, v). validateStudent dp v i) (enumerate 0 xs)))
   \<and> errors (validateStudents dp (JArr xs))
       = concat (map (\<lambda>(i, v). contributedErrors dp i v) (enumerate 0 xs))
   \<and> (\<forall>(i, v) \<in> set (enumerate 0 xs).
        (isOk (validateStudent dp v i) \<longleftrightarrow> contributedErrors dp i v = [])
        \<and> (\<forall>e \<in> set (contributedErrors dp i v).
              \<exists>msg. e = ascii ''students['' @ natToString i @ ascii '']: '' @ msg))
   \<and> length (valid (validateStudents dp (JArr xs)))
       + length (filter (\<lambda>(i, v). contributedErrors dp i v \<noteq> []) (enumerate 0 xs))
       = length xs"
proof -
  have a: "\<not> (\<exists>items. data = JArr items) \<longrightarrow>
      valid (validateStudents dp data) = []
      \<and> errors (validateStudents dp data)
          = [ascii ''students.json must be an array of student objects'']"
    by (cases data) (simp_all add: validateStudents_def del: ascii_Cons ascii_Nil)
  have b: "valid (validateStudents dp (JArr xs))
       = map resultValue
           (filter isOk (map (\<lambda>(i, v). validateStudent dp v i) (enumerate 0 xs)))"
    by (simp add: validateStudents_def validateEach_eq)
  have c: "errors (validateStudents dp (JArr xs))
       = concat (map (\<lambda>(i, v). contributedErrors dp i v) (enumerate 0 xs))"
    by (simp add: validateStudents_def validateEach_eq)
  have d: "\<forall>(i, v) \<in> set (enumerate 0 xs).
        (isOk (validateStudent dp v i) \<longleftrightarrow> contributedErrors dp i v = [])
        \<and> (\<forall>e \<in> set (contributedErrors dp i v).
              \<exists>msg. e = ascii ''students['' @ natToString i @ ascii '']: '' @ msg)"
    using contributedErrors_empty_iff contributedErrors_prefixed by blast
  have "length (filter isOk (map (\<lambda>(i, v). validateStudent dp v i) (enumerate 0 xs)))
       + length (filter (\<lambda>p. \<not> isOk ((\<lambda>(i, v). validateStudent dp v i) p)) (enumerate 0 xs))
       = length (enumerate 0 xs)"
    by (rule filter_isOk_count)
  moreover have "(\<lambda>p. \<not> isOk ((\<lambda>(i, v). validateStudent dp v i) p))
      = (\<lambda>(i, v). contributedErrors dp i v \<noteq> [])"
    by (auto simp: contributedErrors_empty_iff)
  ultimately have e: "length (valid (validateStudents dp (JArr xs)))
       + length (filter (\<lambda>(i, v). contributedErrors dp i v \<noteq> []) (enumerate 0 xs))
       = length xs"
    unfolding b by simp
  from a b c d e show ?thesis by blast
qed

lemma test_valid_student:
  "isOk (validateStudent (\<lambda>s. Some 0)
     (JObj [(ascii ''id'', JStr (ascii ''S1'')),
            (ascii ''name'', JStr (ascii ''Valid Student'')),
            (ascii ''email'', JStr (ascii ''valid@example.com'')),
            (ascii ''grades'', JArr [JObj [(ascii ''subject'', JStr (ascii ''Math'')),
                                           (ascii ''score'', JNum 88)]]),
            (ascii ''participationScore'', JNum 7),
            (ascii ''assignmentCompletionRate'', JNum 92),
            (ascii ''teacherNotes'', JStr (ascii ''Doing well.'')),
            (ascii ''performanceTrend'', JStr (ascii ''improving'')),
            (ascii ''lastAssessmentDate'', JStr (ascii ''2024-09-01''))]) 0)"
  by (simp add: validateStudent_def validateGrade_def isValidDate_def trim_def isWhiteSpace_def
        EMAIL_PATTERN_test_def emailClass_def Let_def)


theorem validateStudents_partition_witness:
  "length (valid (validateStudents (\<lambda>s. Some 0)
     (JArr [JObj [(ascii ''id'', JStr (ascii ''S1'')),
            (ascii ''name'', JStr (ascii ''Valid Student'')),
            (ascii ''email'', JStr (ascii ''valid@example.com'')),
            (ascii ''grades'', JArr [JObj [(ascii ''subject'', JStr (ascii ''Math'')),
                                           (ascii ''score'', JNum 88)]]),
            (ascii ''participationScore'', JNum 7),
            (ascii ''assignmentCompletionRate'', JNum 92),
            (ascii ''teacherNotes'', JStr (ascii ''Doing well.'')),
            (ascii ''performanceTrend'', JStr (ascii ''improving'')),
            (ascii ''lastAssessmentDate'', JStr (ascii ''2024-09-01''))],
            JNum 42]))) = 1
   \<and> errors (validateStudents (\<lambda>s. Some 0)
     (JArr [JObj [(ascii ''id'', JStr (ascii ''S1'')),
            (ascii ''name'', JStr (ascii ''Valid Student'')),
            (ascii ''email'', JStr (ascii ''valid@example.com'')),
            (ascii ''grades'', JArr [JObj [(ascii ''subject'', JStr (ascii ''Math'')),
                                           (ascii ''score'', JNum 88)]]),
            (ascii ''participationScore'', JNum 7),
            (ascii ''assignmentCompletionRate'', JNum 92),
            (ascii ''teacherNotes'', JStr (ascii ''Doing well.'')),
            (ascii ''performanceTrend'', JStr (ascii ''improving'')),
            (ascii ''lastAssessmentDate'', JStr (ascii ''2024-09-01''))],
            JNum 42]))
       = [ascii ''students[1]: students[1] must be an object'']
   \<and> valid (validateStudents (\<lambda>s. Some 0) (JNum 42)) = []
   \<and> errors (validateStudents (\<lambda>s. Some 0) (JNum 42))
       = [ascii ''students.json must be an array of student objects'']"
proof -
  let ?dp = "\<lambda>s :: jsstring. Some (0 :: real)"
  let ?ok = "JObj [(ascii ''id'', JStr (ascii ''S1'')),
            (ascii ''name'', JStr (ascii ''Valid Student'')),
            (ascii ''email'', JStr (ascii ''valid@example.com'')),
            (ascii ''grades'', JArr [JObj [(ascii ''subject'', JStr (ascii ''Math'')),
                                           (ascii ''score'', JNum 88)]]),
            (ascii ''participationScore'', JNum 7),
            (ascii ''assignmentCompletionRate'', JNum 92),
            (ascii ''teacherNotes'', JStr (ascii ''Doing well.'')),
            (ascii ''performanceTrend'', JStr (ascii ''improving'')),
            (ascii ''lastAssessmentDate'', JStr (ascii ''2024-09-01''))]"
  have c0: "contributedErrors ?dp 0 ?ok = []"
    using test_valid_student by (simp only: contributedErrors_empty_iff)
  have c1: "contributedErrors ?dp (Suc 0) (JNum 42)
      = [ascii ''students[1]: students[1] must be an object'']"
    by (simp add: contributedErrors_def validateStudent_def prefixError_def natToString.simps)
  have n: "\<not> (\<exists>items. JNum 42 = JArr items)" by simp
  from validateStudents_partition [of "JNum 42" ?dp "[?ok, JNum 42]"] n
  have v: "valid (validateStudents ?dp (JNum 42)) = []"
    and t: "errors (validateStudents ?dp (JNum 42))
       = [ascii ''students.json must be an array of student objects'']"
    and e: "errors (validateStudents ?dp (JArr [?ok, JNum 42]))
       = concat (map (\<lambda>(i, v). contributedErrors ?dp i v) (enumerate 0 [?ok, JNum 42]))"
    and l: "length (valid (validateStudents ?dp (JArr [?ok, JNum 42])))
       + length (filter (\<lambda>(i, v). contributedErrors ?dp i v \<noteq> []) (enumerate 0 [?ok, JNum 42]))
       = length [?ok, JNum 42]"
    by blast+
  have e': "errors (validateStudents ?dp (JArr [?ok, JNum 42]))
       = [ascii ''students[1]: students[1] must be an object'']"
    unfolding e by (simp only: enumerate_simps list.map prod.case c0 c1 concat.simps append_Nil append_Nil2)
  have f: "filter (\<lambda>(i, v). contributedErrors ?dp i v \<noteq> []) (enumerate 0 [?ok, JNum 42])
      = [(Suc 0, JNum 42)]"
    by (simp only: enumerate_simps filter.simps prod.case c0 c1 not_False_eq_True
          not_True_eq_False if_True if_False list.distinct simp_thms)
  from l have l': "length (valid (validateStudents ?dp (JArr [?ok, JNum 42]))) = 1"
    unfolding f by simp
  from l' e' v t show ?thesis by blast
qed

section \<open>Properties of the subject rankings\<close>

lemma filter_insertBy_other:
  "\<not> P x \<Longrightarrow> filter P (insertBy cmp x ys) = filter P ys"
  by (induction ys) auto

text \<open>
  Inserting before the first element that need not precede keeps the inserted element
  ahead of all elements with the same key, when the comparator is the difference of
  keys in one of the two directions.
\<close>

lemma filter_insertBy_desc:
  "filter (\<lambda>y. f y = f x) (insertBy (\<lambda>a b. f b - f a) x ys)
     = x # filter (\<lambda>y. f y = f x) ys" for f :: "'a \<Rightarrow> real"
  by (induction ys) auto

lemma filter_insertBy_asc:
  "filter (\<lambda>y. f y = f x) (insertBy (\<lambda>a b. f a - f b) x ys)
     = x # filter (\<lambda>y. f y = f x) ys" for f :: "'a \<Rightarrow> real"
  by (induction ys) auto

lemma sortBy_Cons: "sortBy cmp (x # xs) = insertBy cmp x (sortBy cmp xs)"
  by (simp add: sortBy_def)

lemma sortBy_Nil: "sortBy cmp [] = []"
  by (simp add: sortBy_def)

lemma sortBy_desc_stable:
  "filter (\<lambda>y. f y = k) (sortBy (\<lambda>a b. f b - f a) xs) = filter (\<lambda>y. f y = k) xs"
  for f :: "'a \<Rightarrow> real"
proof (induction xs)
  case Nil
  then show ?case by (simp add: sortBy_Nil)
next
  case (Cons x xs)
  show ?case
  proof (cases "f x = k")
    case True
    with Cons filter_insertBy_desc [of f x "sortBy (\<lambda>a b. f b - f a) xs"]
    show ?thesis by (simp add: sortBy_Cons)
  next
    case False
    with Cons show ?thesis by (simp add: sortBy_Cons filter_insertBy_other)
  qed
qed

lemma sortBy_asc_stable:
  "filter (\<lambda>y. f y = k) (sortBy (\<lambda>a b. f a - f b) xs) = filter (\<lambda>y. f y = k) xs"
  for f :: "'a \<Rightarrow> real"
proof (induction xs)
  case Nil
  then show ?case by (simp add: sortBy_Nil)
next
  case (Cons x xs)
  show ?case
  proof (cases "f x = k")
    case True
    with Cons filter_insertBy_asc [of f x "sortBy (\<lambda>a b. f a - f b) xs"]
    show ?thesis by (simp add: sortBy_Cons)
  next
    case False
    with Cons show ?thesis by (simp add: sortBy_Cons filter_insertBy_other)
  qed
qed

lemma set_insertBy: "set (insertBy cmp x ys) = insert x (set ys)"
  by (induction ys) auto

lemma length_insertBy: "length (insertBy cmp x ys) = Suc (length ys)"
  by (induction ys) auto

lemma length_sortBy: "length (sortBy cmp xs) = length xs"
  by (induction xs) (simp_all add: sortBy_Nil sortBy_Cons length_insertBy)

lemma set_sortBy: "set (sortBy cmp xs) = set xs"
  by (induction xs) (simp_all add: sortBy_Nil sortBy_Cons set_insertBy)

lemma sorted_insertBy_desc:
  "sorted_wrt (\<lambda>a b. f a \<ge> f b) ys \<Longrightarrow>
     sorted_wrt (\<lambda>a b. f a \<ge> f b) (insertBy (\<lambda>a b. f b - f a) x ys)"
  for f :: "'a \<Rightarrow> real"
  by (induction ys) (auto simp: set_insertBy)

lemma sorted_insertBy_asc:
  "sorted_wrt (\<lambda>a b. f a \<le> f b) ys \<Longrightarrow>
     sorted_wrt (\<lambda>a b. f a \<le> f b) (insertBy (\<lambda>a b. f a - f b) x ys)"
  for f :: "'a \<Rightarrow> real"
  by (induction ys) (auto simp: set_insertBy)

lemma sorted_sortBy_desc:
  "sorted_wrt (\<lambda>a b. f a \<ge> f b) (sortBy (\<lambda>a b. f b - f a) xs)" for f :: "'a \<Rightarrow> real"
  by (induction xs) (simp_all add: sortBy_Nil sortBy_Cons sorted_insertBy_desc)

lemma sorted_sortBy_asc:
  "sorted_wrt (\<lambda>a b. f a \<le> f b) (sortBy (\<lambda>a b. f a - f b) xs)" for f :: "'a \<Rightarrow> real"
  by (induction xs) (simp_all add: sortBy_Nil sortBy_Cons sorted_insertBy_asc)

lemma prefix_filter_take: "prefix (filter P (take n xs)) (filter P xs)"
proof -
  have "filter P xs = filter P (take n xs) @ filter P (drop n xs)"
    by (metis append_take_drop_id filter_append)
  then show ?thesis by (simp add: prefix_def)
qed


lemma topN_take: "topN items n f = take n (sortBy (\<lambda>a b. f b - f a) items)"
  by (simp add: topN_def slice_0_take)

lemma bottomN_take: "bottomN items n f = take n (sortBy (\<lambda>a b. f a - f b) items)"
  by (simp add: bottomN_def slice_0_take)

lemma topN_stable:
  "prefix (filter (\<lambda>y. f y = k) (topN items n f)) (filter (\<lambda>y. f y = k) items)"
  for f :: "'a \<Rightarrow> real"
  using prefix_filter_take [of "\<lambda>y. f y = k" n "sortBy (\<lambda>a b. f b - f a) items"]
  by (simp add: topN_take sortBy_desc_stable)

lemma bottomN_stable:
  "prefix (filter (\<lambda>y. f y = k) (bottomN items n f)) (filter (\<lambda>y. f y = k) items)"
  for f :: "'a \<Rightarrow> real"
  using prefix_filter_take [of "\<lambda>y. f y = k" n "sortBy (\<lambda>a b. f a - f b) items"]
  by (simp add: bottomN_take sortBy_asc_stable)

lemma topN_sorted: "sorted_wrt (\<lambda>a b. f a \<ge> f b) (topN items n f)" for f :: "'a \<Rightarrow> real"
  by (simp add: topN_take sorted_sortBy_desc sorted_wrt_take)

lemma bottomN_sorted: "sorted_wrt (\<lambda>a b. f a \<le> f b) (bottomN items n f)"
  for f :: "'a \<Rightarrow> real"
  by (simp add: bottomN_take sorted_sortBy_asc sorted_wrt_take)

lemma topN_store_result:
  assumes "arrays h items = Some xs" "items < nextRef h"
  shows "case topN_store items n f h of
           (r, h') \<Rightarrow> arrays h' items = Some xs \<and> arrays h' r = Some (topN xs n f)
              \<and> r \<noteq> items \<and> (\<forall>a < nextRef h. arrays h' a = arrays h a)"
  using assms
  by (simp add: topN_store_def spreadCopy_def sortInPlace_def sliceArray_def newArray_def
        readArray_def topN_def Let_def)

lemma bottomN_store_result:
  assumes "arrays h items = Some xs" "items < nextRef h"
  shows "case bottomN_store items n f h of
           (r, h') \<Rightarrow> arrays h' items = Some xs \<and> arrays h' r = Some (bottomN xs n f)
              \<and> r \<noteq> items \<and> (\<forall>a < nextRef h. arrays h' a = arrays h a)"
  using assms
  by (simp add: bottomN_store_def spreadCopy_def sortInPlace_def sliceArray_def newArray_def
        readArray_def bottomN_def Let_def)

lemma analyzeStudent_subjects:
  "highestSubjects (metrics (analyzeStudent s)) = topN (grades s) 2 score"
  "lowestSubjects (metrics (analyzeStudent s)) = bottomN (grades s) 2 score"
  by (simp_all add: analyzeStudent_def Let_def)

text \<open>
  Claim C8. The highest subjects are the first two grades of the grades sorted by
  descending score, the lowest subjects the first two of the grades sorted by ascending
  score, and the sort is stable: for every score, the grades with that score in either
  list are an initial part of the grades with that score in the original sequence, so
  grades with equal scores keep their original relative order. In the store, each of
  \<open>topN\<close> and \<open>bottomN\<close> sorts a fresh copy: the array of the input holds the same
  grades afterwards, every array allocated before is unchanged, and the result is a
  new array holding the ranking.
\<close>

theorem subject_rankings_stable:
  "highestSubjects (metrics (analyzeStudent s))
     = take 2 (sortBy (\<lambda>a b. score b - score a) (grades s))
   \<and> lowestSubjects (metrics (analyzeStudent s))
     = take 2 (sortBy (\<lambda>a b. score a - score b) (grades s))
   \<and> sorted_wrt (\<lambda>a b. score a \<ge> score b) (sortBy (\<lambda>a b. score b - score a) (grades s))
   \<and> sorted_wrt (\<lambda>a b. score a \<le> score b) (sortBy (\<lambda>a b. score a - score b) (grades s))
   \<and> filter (\<lambda>g. score g = k) (sortBy (\<lambda>a b. score b - score a) (grades s))
     = filter (\<lambda>g. score g = k) (grades s)
   \<and> filter (\<lambda>g. score g = k) (sortBy (\<lambda>a b. score a - score b) (grades s))
     = filter (\<lambda>g. score g = k) (grades s)
   \<and> prefix (filter (\<lambda>g. score g = k) (highestSubjects (metrics (analyzeStudent s))))
            (filter (\<lambda>g. score g = k) (grades s))
   \<and> prefix (filter (\<lambda>g. score g = k) (lowestSubjects (metrics (analyzeStudent s))))
            (filter (\<lambda>g. score g = k) (grades s))
   \<and> (arrays h items = Some (grades s) \<and> items < nextRef h \<longrightarrow>
        (case topN_store items 2 score h of
           (r, h') \<Rightarrow> arrays h' items = Some (grades s)
              \<and> arrays h' r = Some (highestSubjects (metrics (analyzeStudent s)))
              \<and> r \<noteq> items \<and> (\<forall>a < nextRef h. arrays h' a = arrays h a))
        \<and> (case bottomN_store items 2 score h of
           (r, h') \<Rightarrow> arrays h' items = Some (grades s)
              \<and> arrays h' r = Some (lowestSubjects (metrics (analyzeStudent s)))
              \<and> r \<noteq> items \<and> (\<forall>a < nextRef h. arrays h' a = arrays h a)))"
proof -
  have a: "highestSubjects (metrics (analyzeStudent s))
     = take 2 (sortBy (\<lambda>a b. score b - score a) (grades s))"
    by (simp add: analyzeStudent_subjects topN_take)
  have b: "lowestSubjects (metrics (analyzeStudent s))
     = take 2 (sortBy (\<lambda>a b. score a - score b) (grades s))"
    by (simp add: analyzeStudent_subjects bottomN_take)
  have c: "sorted_wrt (\<lambda>a b. score a \<ge> score b) (sortBy (\<lambda>a b. score b - score a) (grades s))"
    by (rule sorted_sortBy_desc)
  have d: "sorted_wrt (\<lambda>a b. score a \<le> score b) (sortBy (\<lambda>a b. score a - score b) (grades s))"
    by (rule sorted_sortBy_asc)
  have e: "filter (\<lambda>g. score g = k) (sortBy (\<lambda>a b. score b - score a) (grades s))
     = filter (\<lambda>g. score g = k) (grades s)"
    by (rule sortBy_desc_stable)
  have f: "filter (\<lambda>g. score g = k) (sortBy (\<lambda>a b. score a - score b) (grades s))
     = filter (\<lambda>g. score g = k) (grades s)"
    by (rule sortBy_asc_stable)
  have g: "prefix (filter (\<lambda>g. score g = k) (highestSubjects (metrics (analyzeStudent s))))
            (filter (\<lambda>g. score g = k) (grades s))"
    unfolding analyzeStudent_subjects by (rule topN_stable)
  have i: "prefix (filter (\<lambda>g. score g = k) (lowestSubjects (metrics (analyzeStudent s))))
            (filter (\<lambda>g. score g = k) (grades s))"
    unfolding analyzeStudent_subjects by (rule bottomN_stable)
  have j: "arrays h items = Some (grades s) \<and> items < nextRef h \<longrightarrow>
        (case topN_store items 2 score h of
           (r, h') \<Rightarrow> arrays h' items = Some (grades s)
              \<and> arrays h' r = Some (highestSubjects (metrics (analyzeStudent s)))
              \<and> r \<noteq> items \<and> (\<forall>a < nextRef h. arrays h' a = arrays h a))
        \<and> (case bottomN_store items 2 score h of
           (r, h') \<Rightarrow> arrays h' items = Some (grades s)
              \<and> arrays h' r = Some (lowestSubjects (metrics (analyzeStudent s)))
              \<and> r \<noteq> items \<and> (\<forall>a < nextRef h. arrays h' a = arrays h a))"
  proof (intro impI, elim conjE)
    assume h1: "arrays h items = Some (grades s)" and h2: "items < nextRef h"
    show "(case topN_store items 2 score h of
           (r, h') \<Rightarrow> arrays h' items = Some (grades s)
              \<and> arrays h' r = Some (highestSubjects (metrics (analyzeStudent s)))
              \<and> r \<noteq> items \<and> (\<forall>a < nextRef h. arrays h' a = arrays h a))
        \<and> (case bottomN_store items 2 score h of
           (r, h') \<Rightarrow> arrays h' items = Some (grades s)
              \<and> arrays h' r = Some (lowestSubjects (metrics (analyzeStudent s)))
              \<and> r \<noteq> items \<and> (\<forall>a < nextRef h. arrays h' a = arrays h a))"
      unfolding analyzeStudent_subjects
      by (rule conjI [OF topN_store_result [OF h1 h2] bottomN_store_result [OF h1 h2]])
  qed
  show ?thesis by (intro conjI a b c d e f g i j)
qed


theorem subject_rankings_stable_witness:
  "highestSubjects (metrics (analyzeStudent (testStudent\<lparr> grades :=
       [\<lparr> subject = ascii ''History'', score = 80 \<rparr>, \<lparr> subject = ascii ''Math'', score = 90 \<rparr>,
        \<lparr> subject = ascii ''Art'', score = 80 \<rparr>, \<lparr> subject = ascii ''Science'', score = 90 \<rparr>] \<rparr>)))
     = [\<lparr> subject = ascii ''Math'', score = 90 \<rparr>, \<lparr> subject = ascii ''Science'', score = 90 \<rparr>]
   \<and> lowestSubjects (metrics (analyzeStudent (testStudent\<lparr> grades :=
       [\<lparr> subject = ascii ''History'', score = 80 \<rparr>, \<lparr> subject = ascii ''Math'', score = 90 \<rparr>,
        \<lparr> subject = ascii ''Art'', score = 80 \<rparr>, \<lparr> subject = ascii ''Science'', score = 90 \<rparr>] \<rparr>)))
     = [\<lparr> subject = ascii ''History'', score = 80 \<rparr>, \<lparr> subject = ascii ''Art'', score = 80 \<rparr>]
   \<and> (case topN_store 0 2 score
             \<lparr> arrays = [0 \<mapsto>
                 [\<lparr> subject = ascii ''History'', score = 80 \<rparr>, \<lparr> subject = ascii ''Math'', score = 90 \<rparr>,
                  \<lparr> subject = ascii ''Art'', score = 80 \<rparr>, \<lparr> subject = ascii ''Science'', score = 90 \<rparr>]],
               nextRef = 1 \<rparr> of
        (r, h') \<Rightarrow> r \<noteq> 0 \<and> arrays h' 0 = Some
                 [\<lparr> subject = ascii ''History'', score = 80 \<rparr>, \<lparr> subject = ascii ''Math'', score = 90 \<rparr>,
                  \<lparr> subject = ascii ''Art'', score = 80 \<rparr>, \<lparr> subject = ascii ''Science'', score = 90 \<rparr>])"
proof -
  let ?gs = "[\<lparr> subject = ascii ''History'', score = 80 \<rparr>, \<lparr> subject = ascii ''Math'', score = 90 \<rparr>,
        \<lparr> subject = ascii ''Art'', score = 80 \<rparr>, \<lparr> subject = ascii ''Science'', score = 90 \<rparr>]"
  let ?S = "testStudent\<lparr> grades := ?gs \<rparr>"
  let ?H = "\<lparr> arrays = [0 \<mapsto> ?gs], nextRef = 1 \<rparr>"
  note T = subject_rankings_stable [of ?S 90 ?H 0]
  have g: "grades ?S = ?gs" by simp
  have hi: "take 2 (sortBy (\<lambda>a b. score b - score a) ?gs)
      = [\<lparr> subject = ascii ''Math'', score = 90 \<rparr>, \<lparr> subject = ascii ''Science'', score = 90 \<rparr>]"
    by (simp add: sortBy_def del: ascii_Cons ascii_Nil)
  have lo: "take 2 (sortBy (\<lambda>a b. score a - score b) ?gs)
      = [\<lparr> subject = ascii ''History'', score = 80 \<rparr>, \<lparr> subject = ascii ''Art'', score = 80 \<rparr>]"
    by (simp add: sortBy_def del: ascii_Cons ascii_Nil)
  have a: "highestSubjects (metrics (analyzeStudent ?S))
      = [\<lparr> subject = ascii ''Math'', score = 90 \<rparr>, \<lparr> subject = ascii ''Science'', score = 90 \<rparr>]"
    using T [THEN conjunct1] unfolding g hi .
  have b: "lowestSubjects (metrics (analyzeStudent ?S))
      = [\<lparr> subject = ascii ''History'', score = 80 \<rparr>, \<lparr> subject = ascii ''Art'', score = 80 \<rparr>]"
    using T [THEN conjunct2, THEN conjunct1] unfolding g lo .
  have h1: "arrays ?H 0 = Some (grades ?S) \<and> 0 < nextRef ?H" unfolding g by simp
  have j: "case topN_store 0 2 score ?H of
        (r, h') \<Rightarrow> arrays h' 0 = Some (grades ?S)
              \<and> arrays h' r = Some (highestSubjects (metrics (analyzeStudent ?S)))
              \<and> r \<noteq> 0 \<and> (\<forall>a < nextRef ?H. arrays h' a = arrays ?H a)"
    using T [THEN conjunct2, THEN conjunct2, THEN conjunct2, THEN conjunct2, THEN conjunct2,
             THEN conjunct2, THEN conjunct2, THEN conjunct2, THEN mp, OF h1, THEN conjunct1] .
  have c: "case topN_store 0 2 score ?H of (r, h') \<Rightarrow> r \<noteq> 0 \<and> arrays h' 0 = Some ?gs"
    using j unfolding g by (cases "topN_store 0 2 score ?H") simp
  show ?thesis by (intro conjI a b c)
qed

section \<open>Properties of the fallback against the schema\<close>

lemma fallback_strategies_count:
  "2 \<le> length (strategies (buildFallbackStudentInsights a p))
   \<and> length (strategies (buildFallbackStudentInsights a p)) \<le> 3"
  unfolding fallback_strategies by (simp add: padStrategies_length)

lemma fallback_student_fields:
  "StudentInsights.strengths (buildFallbackStudentInsights a p)
     = take 3 (if length (StudentAnalysis.strengths a) > 0 then StudentAnalysis.strengths a
               else [ascii ''You're making steady progress across your classes.''])"
  "positiveObservation (buildFallbackStudentInsights a p)
     = (if length (StudentAnalysis.strengths a) > 0 then StudentAnalysis.strengths a
        else [ascii ''You're making steady progress across your classes.'']) ! 0"
  "StudentInsights.improvementAreas (buildFallbackStudentInsights a p)
     = (if length (StudentAnalysis.improvementAreas a) > 0
        then take 2 (StudentAnalysis.improvementAreas a)
        else [ascii ''Keep building consistency with assignments and review routines.''])"
  "nextStepGoal (buildFallbackStudentInsights a p) = fallbackGoal p"
  "encouragement (buildFallbackStudentInsights a p) = fixedEncouragement"
  by (simp_all add: buildFallbackStudentInsights_def Let_def slice_0_3 slice_0_2
        del: ascii_Cons ascii_Nil)

lemma fallback_student_counts:
  "1 \<le> length (StudentInsights.strengths (buildFallbackStudentInsights a p))
   \<and> length (StudentInsights.strengths (buildFallbackStudentInsights a p)) \<le> 3
   \<and> 1 \<le> length (StudentInsights.improvementAreas (buildFallbackStudentInsights a p))
   \<and> length (StudentInsights.improvementAreas (buildFallbackStudentInsights a p)) \<le> 2"
  unfolding fallback_student_fields
  by (cases "StudentAnalysis.strengths a"; cases "StudentAnalysis.improvementAreas a") simp_all

lemma fallback_teacher_fields:
  "TeacherInsights.strengths (buildFallbackTeacherInsights sm p)
     = (if length (topStudents sm) > 0
        then [ascii ''Top performers this cycle: '' @ join (ascii '', '') (topStudents sm)
                @ ascii ''.'']
        else [ascii ''Several students are maintaining steady performance.''])"
  "TeacherInsights.attentionNeeded (buildFallbackTeacherInsights sm p)
     = map (\<lambda>n. \<lparr> AttentionEntry.name = n, reason = genericReason \<rparr>)
         (TeacherSummary.attentionNeeded sm)"
  "nextSteps (buildFallbackTeacherInsights sm p)
     = take 4 (if length (pushWhileBelow 2 [] (preferredOrEmpty p)) < 2
               then pushWhileBelow 2 [] (preferredOrEmpty p)
                    @ [ascii ''Plan one small-group session for students needing support.'',
                       ascii ''Highlight one success story to reinforce growth mindset.'']
               else pushWhileBelow 2 [] (preferredOrEmpty p))"
  "classOverview (buildFallbackTeacherInsights sm p)
     = ascii ''Class average is '' @ toFixed1 (classAverage sm)
       @ ascii ''. Overall trends are stable with a few students needing additional attention.''"
  by (simp_all add: buildFallbackTeacherInsights_def Let_def slice_0_4 del: ascii_Cons ascii_Nil)

lemma fallback_teacher_counts:
  "length (TeacherInsights.strengths (buildFallbackTeacherInsights sm p)) = 1
   \<and> 2 \<le> length (nextSteps (buildFallbackTeacherInsights sm p))
   \<and> length (nextSteps (buildFallbackTeacherInsights sm p)) \<le> 4"
  unfolding fallback_teacher_fields
  using pushWhileBelow_length [of 2 "[]" "preferredOrEmpty p"] by auto

lemma trim_replicate_a: "trim (replicate n 97) = replicate n 97"
  by (simp add: trim_def isWhiteSpace_def)

lemma fallbackGoal_copies:
  assumes "classGoals p = Some (g # gs)" "trim g \<noteq> []"
  shows "fallbackGoal (Some p) = trim g"
  using assms by (simp add: fallbackGoal_def)

text \<open>
  Claim C2, against the code. The fallbacks bound the numbers of entries (1 to 3
  strengths, 1 to 2 improvement areas, 2 to 3 strategies; one teacher strength and 2
  to 4 next steps) but copy strings from their arguments without the caps that
  \<open>safeString\<close> applies to the same fields of a provider answer. A first class
  goal that is longer than 200 characters after trimming becomes the next-step goal
  in full, and a name needing attention that is longer than 80 characters becomes
  the name of an attention entry in full; in both cases the result is outside the
  schema.
\<close>

theorem fallback_copies_uncapped:
  "(classGoals p = Some (g # gs) \<and> 200 < length (trim g) \<longrightarrow>
      nextStepGoal (buildFallbackStudentInsights a (Some p)) = trim g
      \<and> \<not> studentSchema (buildFallbackStudentInsights a (Some p)))
   \<and> (n \<in> set (TeacherSummary.attentionNeeded sm) \<and> 80 < length n \<longrightarrow>
      \<lparr> AttentionEntry.name = n, reason = genericReason \<rparr>
        \<in> set (TeacherInsights.attentionNeeded (buildFallbackTeacherInsights sm q))
      \<and> \<not> teacherSchema (buildFallbackTeacherInsights sm q))
   \<and> 1 \<le> length (StudentInsights.strengths (buildFallbackStudentInsights a r))
   \<and> length (StudentInsights.strengths (buildFallbackStudentInsights a r)) \<le> 3
   \<and> 1 \<le> length (StudentInsights.improvementAreas (buildFallbackStudentInsights a r))
   \<and> length (StudentInsights.improvementAreas (buildFallbackStudentInsights a r)) \<le> 2
   \<and> 2 \<le> length (strategies (buildFallbackStudentInsights a r))
   \<and> length (strategies (buildFallbackStudentInsights a r)) \<le> 3
   \<and> length (TeacherInsights.strengths (buildFallbackTeacherInsights sm q)) = 1
   \<and> 2 \<le> length (nextSteps (buildFallbackTeacherInsights sm q))
   \<and> length (nextSteps (buildFallbackTeacherInsights sm q)) \<le> 4"
proof -
  have g: "classGoals p = Some (g # gs) \<and> 200 < length (trim g) \<longrightarrow>
      nextStepGoal (buildFallbackStudentInsights a (Some p)) = trim g
      \<and> \<not> studentSchema (buildFallbackStudentInsights a (Some p))"
  proof (intro impI, elim conjE)
    assume c: "classGoals p = Some (g # gs)" and l: "200 < length (trim g)"
    from l have ne: "trim g \<noteq> []" by auto
    have e: "nextStepGoal (buildFallbackStudentInsights a (Some p)) = trim g"
      unfolding fallback_student_fields using fallbackGoal_copies [OF c ne] .
    from l have "\<not> validText 200 (nextStepGoal (buildFallbackStudentInsights a (Some p)))"
      unfolding e by (simp add: validText_def)
    then have "\<not> studentSchema (buildFallbackStudentInsights a (Some p))"
      by (simp add: studentSchema_def)
    with e show "nextStepGoal (buildFallbackStudentInsights a (Some p)) = trim g
      \<and> \<not> studentSchema (buildFallbackStudentInsights a (Some p))" by (rule conjI)
  qed
  have t: "n \<in> set (TeacherSummary.attentionNeeded sm) \<and> 80 < length n \<longrightarrow>
      \<lparr> AttentionEntry.name = n, reason = genericReason \<rparr>
        \<in> set (TeacherInsights.attentionNeeded (buildFallbackTeacherInsights sm q))
      \<and> \<not> teacherSchema (buildFallbackTeacherInsights sm q)"
  proof (intro impI, elim conjE)
    assume m: "n \<in> set (TeacherSummary.attentionNeeded sm)" and l: "80 < length n"
    have i: "\<lparr> AttentionEntry.name = n, reason = genericReason \<rparr>
        \<in> set (TeacherInsights.attentionNeeded (buildFallbackTeacherInsights sm q))"
      unfolding fallback_teacher_fields using m by simp
    from l have "\<not> validAttention \<lparr> AttentionEntry.name = n, reason = genericReason \<rparr>"
      by (simp add: validAttention_def validText_def)
    with i have "\<not> list_all validAttention
        (TeacherInsights.attentionNeeded (buildFallbackTeacherInsights sm q))"
      unfolding list_all_iff by blast
    then have "\<not> teacherSchema (buildFallbackTeacherInsights sm q)"
      by (simp add: teacherSchema_def)
    with i show "\<lparr> AttentionEntry.name = n, reason = genericReason \<rparr>
        \<in> set (TeacherInsights.attentionNeeded (buildFallbackTeacherInsights sm q))
      \<and> \<not> teacherSchema (buildFallbackTeacherInsights sm q)" by (rule conjI)
  qed
  note sc = fallback_student_counts [of a r]
  note kc = fallback_strategies_count [of a r]
  note tc = fallback_teacher_counts [of sm q]
  show ?thesis
    by (intro conjI g t sc [THEN conjunct1] sc [THEN conjunct2, THEN conjunct1]
          sc [THEN conjunct2, THEN conjunct2, THEN conjunct1]
          sc [THEN conjunct2, THEN conjunct2, THEN conjunct2]
          kc [THEN conjunct1] kc [THEN conjunct2]
          tc [THEN conjunct1] tc [THEN conjunct2, THEN conjunct1]
          tc [THEN conjunct2, THEN conjunct2])
qed

theorem fallback_copies_uncapped_witness:
  "length (nextStepGoal (buildFallbackStudentInsights (analyzeStudent testStudent)
       (Some \<lparr> classGoals = Some [replicate 201 97], focusAreas = None,
                preferredStrategies = None, tone = None,
                TeacherPreferences.teacherNotes = None \<rparr>))) = 201
   \<and> \<not> studentSchema (buildFallbackStudentInsights (analyzeStudent testStudent)
       (Some \<lparr> classGoals = Some [replicate 201 97], focusAreas = None,
                preferredStrategies = None, tone = None,
                TeacherPreferences.teacherNotes = None \<rparr>))
   \<and> \<not> teacherSchema (buildFallbackTeacherInsights
       \<lparr> classAverage = 80, topStudents = [replicate 81 97],
         TeacherSummary.attentionNeeded = [replicate 81 97],
         notes_field = [ascii ''1 student(s) show a declining trend.''] \<rparr> None)"
proof -
  let ?p = "\<lparr> classGoals = Some [replicate 201 97], focusAreas = None,
                preferredStrategies = None, tone = None,
                TeacherPreferences.teacherNotes = None \<rparr>"
  let ?sm = "\<lparr> classAverage = 80, topStudents = [replicate 81 97],
         TeacherSummary.attentionNeeded = [replicate 81 97],
         notes_field = [ascii ''1 student(s) show a declining trend.''] \<rparr>"
  note T = fallback_copies_uncapped
    [of ?p "replicate 201 97" "[]" "analyzeStudent testStudent" "replicate 81 97" ?sm None]
  have h1: "classGoals ?p = Some (replicate 201 97 # []) \<and> 200 < length (trim (replicate 201 97))"
    by (simp add: trim_replicate_a)
  have h2: "replicate 81 97 \<in> set (TeacherSummary.attentionNeeded ?sm)
      \<and> 80 < length (replicate 81 (97 :: jschar))" by simp
  from T h1 have g: "nextStepGoal (buildFallbackStudentInsights (analyzeStudent testStudent) (Some ?p))
        = trim (replicate 201 97)"
    and n: "\<not> studentSchema (buildFallbackStudentInsights (analyzeStudent testStudent) (Some ?p))"
    by blast+
  from T h2 have t: "\<not> teacherSchema (buildFallbackTeacherInsights ?sm None)" by blast
  have l: "length (nextStepGoal (buildFallbackStudentInsights (analyzeStudent testStudent) (Some ?p)))
      = 201"
    unfolding g trim_replicate_a by simp
  show ?thesis by (intro conjI l n t)
qed

end
